theory Spec2Isabelle
  imports Complex_Main
begin

section \<open>Conventions of the embedding\<close>

text \<open>
  The bot keeps all of its state in a relational store (SQLAlchemy models of
  \<^verbatim>\<open>database/models.py\<close>) and every handler re-reads that store when it starts.
  A table is modelled as the list of its rows in storage order, \<^verbatim>\<open>.first()\<close> as the
  first matching row of that list, and a handler as a function from the stored state to
  the new stored state.  Python exceptions are values of the type \<open>error\<close>; a
  computation that can raise returns \<open>error + 'a\<close> with \<open>Inl\<close> for the exception, and
  a handler returns the state it leaves stored together with its result or exception.
  What goes to the chat transport (message texts, keyboards) is not modelled beyond
  the screen that is shown and the numbers of the summary screens.

  Python \<^verbatim>\<open>float\<close> values (accuracies, clock readings) are modelled by exact reals,
  so rounding of the IEEE arithmetic is not part of the model.  Clock readings
  (\<^verbatim>\<open>time.time()\<close>, \<^verbatim>\<open>datetime.utcnow()\<close>) are passed to an operation as the
  argument \<open>now\<close>, in seconds.  Strings are \<open>char list\<close> with 8-bit characters.
\<close>

datatype error = IndexError | KeyError | ValueError | TypeError | ZeroDivisionError
  | OperationalError

definition bind_err :: "error + 'a \<Rightarrow> ('a \<Rightarrow> error + 'b) \<Rightarrow> error + 'b" where
  "bind_err r f = (case r of Inl e \<Rightarrow> Inl e | Inr v \<Rightarrow> f v)"


section \<open>Python string operations used by the handlers\<close>

definition startswith :: "string \<Rightarrow> string \<Rightarrow> bool" where
  "startswith s p = (take (length p) s = p)"

text \<open>\<^verbatim>\<open>sub in s\<close> for strings: \<open>sub\<close> occurs in \<open>s\<close> as a contiguous block.\<close>

fun contains :: "string \<Rightarrow> string \<Rightarrow> bool" where
  "contains [] sub = (sub = [])"
| "contains (c # cs) sub = (startswith (c # cs) sub \<or> contains cs sub)"

text \<open>\<^verbatim>\<open>s.split(sep)\<close> for a one-character separator: empty pieces are kept.\<close>

fun split_chr :: "char \<Rightarrow> string \<Rightarrow> string list" where
  "split_chr sep [] = [[]]"
| "split_chr sep (c # cs) =
     (if c = sep then [] # split_chr sep cs
      else (case split_chr sep cs of
              [] \<Rightarrow> [[c]]
            | p # ps \<Rightarrow> (c # p) # ps))"

text \<open>\<^verbatim>\<open>xs[i]\<close> for a non-negative index.\<close>

definition py_index :: "'a list \<Rightarrow> nat \<Rightarrow> error + 'a" where
  "py_index xs i = (if i < length xs then Inr (xs ! i) else Inl IndexError)"

definition is_ascii_digit :: "char \<Rightarrow> bool" where
  "is_ascii_digit c = (48 \<le> (of_char c :: nat) \<and> (of_char c :: nat) \<le> 57)"

text \<open>
  \<^verbatim>\<open>str.isdigit()\<close>: every character is a digit and there is at least one.  Among the
  8-bit characters the superscripts two, three and one (0xB2, 0xB3, 0xB9) are digits
  for \<^verbatim>\<open>isdigit\<close> although \<^verbatim>\<open>int()\<close> rejects them.
\<close>

definition is_digit_chr :: "char \<Rightarrow> bool" where
  "is_digit_chr c =
     (is_ascii_digit c \<or> c = char_of (178::nat) \<or> c = char_of (179::nat) \<or> c = char_of (185::nat))"

definition isdigit :: "string \<Rightarrow> bool" where
  "isdigit s = (s \<noteq> [] \<and> list_all is_digit_chr s)"

definition is_space_chr :: "char \<Rightarrow> bool" where
  "is_space_chr c =
     (let n = (of_char c :: nat)
      in (9 \<le> n \<and> n \<le> 13) \<or> (28 \<le> n \<and> n \<le> 32) \<or> n = 133 \<or> n = 160)"

definition strip :: "string \<Rightarrow> string" where
  "strip s = rev (dropWhile is_space_chr (rev (dropWhile is_space_chr s)))"

definition digit_val :: "char \<Rightarrow> int" where
  "digit_val c = int (of_char c) - 48"

text \<open>
  The digit part of an \<^verbatim>\<open>int()\<close> literal: ASCII digits, with single underscores
  allowed between two digits.
\<close>

fun digits_ok :: "string \<Rightarrow> bool" where
  "digits_ok [] = False"
| "digits_ok [c] = is_ascii_digit c"
| "digits_ok (c # d # cs) =
     (if is_ascii_digit c then
        (if d = CHR ''_'' then digits_ok cs else digits_ok (d # cs))
      else False)"

definition digits_value :: "string \<Rightarrow> int" where
  "digits_value s = foldl (\<lambda>acc c. 10 * acc + digit_val c) 0 (filter is_ascii_digit s)"

text \<open>\<^verbatim>\<open>int(s)\<close> for a string: surrounding whitespace and one sign are accepted.\<close>

definition py_int :: "string \<Rightarrow> error + int" where
  "py_int s =
     (case strip s of
        [] \<Rightarrow> Inl ValueError
      | c # cs \<Rightarrow>
          if c = CHR ''-'' then (if digits_ok cs then Inr (- digits_value cs) else Inl ValueError)
          else if c = CHR ''+'' then (if digits_ok cs then Inr (digits_value cs) else Inl ValueError)
          else if digits_ok (c # cs) then Inr (digits_value (c # cs))
          else Inl ValueError)"


section \<open>Progress Tracker (database/crud.py)\<close>

text \<open>\<^verbatim>\<open>config.PHASE_UNLOCK_THRESHOLD = 80.0\<close>\<close>

definition PHASE_UNLOCK_THRESHOLD :: real where
  "PHASE_UNLOCK_THRESHOLD = 80"

text \<open>The model \<^verbatim>\<open>Progress\<close>; the surrogate key \<^verbatim>\<open>id\<close> is never read and is left out.\<close>

record Progress =
  p_user_id :: int
  p_subject :: string
  p_grade :: int
  p_unit_id :: string
  current_phase :: string
  baseline_accuracy :: real
  balanced_accuracy :: real
  exam_accuracy :: real
  questions_attempted :: int
  questions_correct :: int
  completion_percent :: real
  unlocked_balanced :: bool
  unlocked_exam :: bool

text \<open>
  A row built by \<^verbatim>\<open>Progress(user_id=..., unit_id=..., subject=..., grade=..., ...)\<close>: the
  columns the constructor call does not set take their column defaults.
\<close>

definition new_Progress :: "int \<Rightarrow> string \<Rightarrow> string \<Rightarrow> int \<Rightarrow> Progress" where
  "new_Progress uid unit subj g =
     \<lparr> p_user_id = uid, p_subject = subj, p_grade = g, p_unit_id = unit,
       current_phase = ''BASELINE'',
       baseline_accuracy = 0, balanced_accuracy = 0, exam_accuracy = 0,
       questions_attempted = 0, questions_correct = 0, completion_percent = 0,
       unlocked_balanced = False, unlocked_exam = False \<rparr>"

definition progress_key :: "int \<Rightarrow> string \<Rightarrow> Progress \<Rightarrow> bool" where
  "progress_key uid unit p = (p_user_id p = uid \<and> p_unit_id p = unit)"

definition get_user_progress :: "Progress list \<Rightarrow> int \<Rightarrow> string \<Rightarrow> Progress option" where
  "get_user_progress tbl uid unit = find (progress_key uid unit) tbl"

text \<open>
  Committing a row that was fetched with \<^verbatim>\<open>.first()\<close> replaces the first matching
  row; committing a row that was \<^verbatim>\<open>db.add\<close>ed appends it.
\<close>

fun store_first :: "('a \<Rightarrow> bool) \<Rightarrow> 'a \<Rightarrow> 'a list \<Rightarrow> 'a list" where
  "store_first P y [] = [y]"
| "store_first P y (x # xs) = (if P x then y # xs else x # store_first P y xs)"

text \<open>The body of \<^verbatim>\<open>update_phase_progress\<close> after the row has been fetched or created.\<close>

definition set_phase_accuracy :: "Progress \<Rightarrow> string \<Rightarrow> real \<Rightarrow> Progress" where
  "set_phase_accuracy p phase accuracy =
     (if phase = ''BASELINE'' then
        (let p1 = p\<lparr>baseline_accuracy := accuracy\<rparr>
         in if accuracy \<ge> PHASE_UNLOCK_THRESHOLD then p1\<lparr>unlocked_balanced := True\<rparr> else p1)
      else if phase = ''BALANCED'' then
        (let p1 = p\<lparr>balanced_accuracy := accuracy\<rparr>
         in if accuracy \<ge> PHASE_UNLOCK_THRESHOLD then p1\<lparr>unlocked_exam := True\<rparr> else p1)
      else if phase = ''EXAM_BIASED'' then p\<lparr>exam_accuracy := accuracy\<rparr>
      else p)"

definition set_current_phase :: "Progress \<Rightarrow> Progress" where
  "set_current_phase p =
     (if unlocked_exam p then p\<lparr>current_phase := ''EXAM_BIASED''\<rparr>
      else if unlocked_balanced p then p\<lparr>current_phase := ''BALANCED''\<rparr>
      else p\<lparr>current_phase := ''BASELINE''\<rparr>)"

definition update_phase_progress ::
  "Progress list \<Rightarrow> int \<Rightarrow> string \<Rightarrow> string \<Rightarrow> int \<Rightarrow> string \<Rightarrow> real \<Rightarrow> Progress list \<times> Progress" where
  "update_phase_progress tbl uid unit subj g phase accuracy =
     (let progress = (case get_user_progress tbl uid unit of
                        None \<Rightarrow> new_Progress uid unit subj g
                      | Some p \<Rightarrow> p);
          progress' = set_current_phase (set_phase_accuracy progress phase accuracy)
      in (store_first (progress_key uid unit) progress' tbl, progress'))"

definition record_quiz_attempt ::
  "Progress list \<Rightarrow> int \<Rightarrow> string \<Rightarrow> string \<Rightarrow> int \<Rightarrow> bool \<Rightarrow> Progress list \<times> Progress" where
  "record_quiz_attempt tbl uid unit subj g correct =
     (let progress = (case get_user_progress tbl uid unit of
                        None \<Rightarrow> new_Progress uid unit subj g
                      | Some p \<Rightarrow> p);
          p1 = progress\<lparr>questions_attempted := questions_attempted progress + 1\<rparr>;
          p2 = (if correct then p1\<lparr>questions_correct := questions_correct p1 + 1\<rparr> else p1);
          p3 = (if questions_attempted p2 > 0
                then p2\<lparr>completion_percent :=
                           real_of_int (questions_correct p2) / real_of_int (questions_attempted p2) * 100\<rparr>
                else p2)
      in (store_first (progress_key uid unit) p3 tbl, p3))"

text \<open>A sequence of batch completions for one (user, unit), each with its phase and accuracy.\<close>

fun complete_batches ::
  "Progress list \<Rightarrow> int \<Rightarrow> string \<Rightarrow> string \<Rightarrow> int \<Rightarrow> (string \<times> real) list \<Rightarrow> Progress list" where
  "complete_batches tbl uid unit subj g [] = tbl"
| "complete_batches tbl uid unit subj g ((phase, accuracy) # calls) =
     complete_batches (fst (update_phase_progress tbl uid unit subj g phase accuracy))
       uid unit subj g calls"

text \<open>The order of the phases and the highest phase whose unlock flag is set.\<close>

definition phase_rank :: "string \<Rightarrow> nat" where
  "phase_rank ph = (if ph = ''EXAM_BIASED'' then 2 else if ph = ''BALANCED'' then 1 else 0)"

definition highest_unlocked :: "Progress \<Rightarrow> string" where
  "highest_unlocked p =
     (if unlocked_exam p then ''EXAM_BIASED''
      else if unlocked_balanced p then ''BALANCED'' else ''BASELINE'')"


section \<open>Review Queue (database/crud.py)\<close>

text \<open>The model \<^verbatim>\<open>ReviewQueue\<close>, without its surrogate key.\<close>

record ReviewQueue =
  r_user_id :: int
  r_subject :: string
  r_grade :: int
  r_unit :: string
  r_question_id :: string
  status :: string
  added_at :: real

definition review_key :: "int \<Rightarrow> string \<Rightarrow> ReviewQueue \<Rightarrow> bool" where
  "review_key uid qid r = (r_user_id r = uid \<and> r_question_id r = qid)"

definition add_to_review_queue ::
  "ReviewQueue list \<Rightarrow> real \<Rightarrow> int \<Rightarrow> string \<Rightarrow> string \<Rightarrow> string \<Rightarrow> int \<Rightarrow> string
     \<Rightarrow> ReviewQueue list \<times> ReviewQueue" where
  "add_to_review_queue tbl now uid qid st subj g unit =
     (case find (review_key uid qid) tbl of
        Some existing \<Rightarrow>
          (let e1 = (if status existing \<noteq> st then existing\<lparr>status := st\<rparr> else existing);
               e2 = e1\<lparr>added_at := now\<rparr>
           in (store_first (review_key uid qid) e2 tbl, e2))
      | None \<Rightarrow>
          (let item = \<lparr> r_user_id = uid, r_subject = subj, r_grade = g, r_unit = unit,
                        r_question_id = qid, status = st, added_at = now \<rparr>
           in (tbl @ [item], item)))"

definition remove_from_review_queue :: "ReviewQueue list \<Rightarrow> int \<Rightarrow> string \<Rightarrow> ReviewQueue list" where
  "remove_from_review_queue tbl uid qid = filter (\<lambda>r. \<not> review_key uid qid r) tbl"

text \<open>The rows of one (user, question) and the rows of all other keys.\<close>

definition rows_of :: "int \<Rightarrow> string \<Rightarrow> ReviewQueue list \<Rightarrow> ReviewQueue list" where
  "rows_of uid qid tbl = filter (review_key uid qid) tbl"

definition other_rows :: "int \<Rightarrow> string \<Rightarrow> ReviewQueue list \<Rightarrow> ReviewQueue list" where
  "other_rows uid qid tbl = filter (\<lambda>r. \<not> review_key uid qid r) tbl"


section \<open>Quiz state and session (database/models.py, handlers)\<close>

text \<open>
  A question of the question bank.  Only the keys the state machine reads are kept:
  the stem, the option texts and the formula flag go to the renderer unchanged.
  \<open>answer\<close> is the alternative key that \<^verbatim>\<open>handle_game_answer\<close> falls back to.
\<close>

record question =
  question_id :: string
  correct_answer :: string
  answer :: "string option"
  explanation :: "string option"
  source_unit :: "string option"

record history_entry =
  q_id :: string
  selected :: "string option"
  correct :: string
  is_correct :: bool

text \<open>
  The dictionary stored as JSON in \<^verbatim>\<open>Session.quiz_state\<close>, as the \<^verbatim>\<open>start_*\<close> functions
  write it.  A key that only some of them write is an option (\<open>None\<close>: key absent).
  The keys \<^verbatim>\<open>subject_code\<close>, \<^verbatim>\<open>count\<close> and \<^verbatim>\<open>unit_title\<close>, which only the start functions
  and the renderer read, are left out.
  The emoji stored under \<^verbatim>\<open>last_feedback\<close> are the constructors of \<open>glyph\<close>.
  \<open>current_index\<close> and \<open>score\<close> start at 0 and are only ever incremented.
\<close>

datatype glyph = Gamepad | CheckMark | CrossMark

record quiz_state =
  mode :: "string option"
  duration :: "int option"
  start_time :: "real option"
  qs_subject :: string
  qs_grade :: string
  qs_unit :: string
  qs_unit_id :: string
  questions :: "question list"
  current_index :: nat
  score :: nat
  history :: "history_entry list"
  last_feedback :: "glyph option"

text \<open>The model \<^verbatim>\<open>Session\<close>; \<open>navigation_stack\<close> is the decoded JSON array, top last.\<close>

record Session =
  current_screen :: string
  current_param :: "string option"
  navigation_stack :: "(string \<times> string option) list"
  last_message_id :: "int option"
  session_quiz_state :: "quiz_state option"


section \<open>Session Store and Navigation Controller (database/crud.py, handlers/navigation.py)\<close>

text \<open>\<^verbatim>\<open>nav_stack[-10:]\<close>\<close>

definition last10 :: "'a list \<Rightarrow> 'a list" where
  "last10 xs = drop (length xs - 10) xs"

text \<open>
  \<^verbatim>\<open>update_session_state(user_id, screen, current_param, message_id, quiz_state,
  add_to_nav_stack)\<close> on the user's session row.  \<^verbatim>\<open>if screen:\<close> is false for \<open>None\<close>
  and for the empty string.
\<close>

definition update_session_state ::
  "Session \<Rightarrow> string option \<Rightarrow> string option \<Rightarrow> int option \<Rightarrow> quiz_state option \<Rightarrow> bool \<Rightarrow> Session" where
  "update_session_state session screen param message_id qs add_to_nav_stack =
     (let s1 = (case screen of
                  None \<Rightarrow> session
                | Some scr \<Rightarrow>
                    if scr = [] then session
                    else
                      (let s0 = (if add_to_nav_stack \<and> current_screen session \<noteq> scr
                                 then session\<lparr>navigation_stack :=
                                        last10 (navigation_stack session
                                                @ [(current_screen session, current_param session)])\<rparr>
                                 else session)
                       in s0\<lparr>current_screen := scr, current_param := param\<rparr>));
          s2 = (case message_id of None \<Rightarrow> s1 | Some m \<Rightarrow> s1\<lparr>last_message_id := Some m\<rparr>);
          s3 = (case qs of None \<Rightarrow> s2 | Some q \<Rightarrow> s2\<lparr>session_quiz_state := Some q\<rparr>)
      in s3)"

text \<open>\<^verbatim>\<open>pop_navigation_stack\<close>: the new session and the popped pair, if there is one.\<close>

definition pop_navigation_stack :: "Session \<Rightarrow> Session \<times> (string \<times> string option) option" where
  "pop_navigation_stack session =
     (if navigation_stack session = [] then (session, None)
      else
        (let previous_item = last (navigation_stack session)
         in (session\<lparr>navigation_stack := butlast (navigation_stack session),
                       current_screen := fst previous_item,
                       current_param := snd previous_item\<rparr>,
             Some previous_item)))"

text \<open>
  \<^verbatim>\<open>navigate_to\<close>.  \<open>rendered\<close> is what \<^verbatim>\<open>render_screen\<close> returned: the id of the message
  it sent or edited, or \<open>None\<close> when the content was unchanged.  In that case nothing is
  stored.
\<close>

definition navigate_to :: "Session \<Rightarrow> string \<Rightarrow> string option \<Rightarrow> bool \<Rightarrow> int option \<Rightarrow> Session" where
  "navigate_to session screen_id param add_to_stack rendered =
     (case rendered of
        None \<Rightarrow> session
      | Some m \<Rightarrow> update_session_state session (Some screen_id) param (Some m) None add_to_stack)"

text \<open>
  \<^verbatim>\<open>go_home\<close>.  The assignment \<^verbatim>\<open>session.navigation_stack = "[]"\<close> is made on an object
  whose database session is closed and is never committed, so the stored stack is
  left as it is.
\<close>

definition go_home :: "Session \<Rightarrow> int option \<Rightarrow> Session" where
  "go_home session rendered =
     navigate_to (update_session_state session (Some ''SCR_HUB'') None None None False)
       ''SCR_HUB'' None False rendered"

definition go_back :: "Session \<Rightarrow> int option \<Rightarrow> Session" where
  "go_back session rendered =
     (case pop_navigation_stack session of
        (s1, Some previous) \<Rightarrow> navigate_to s1 (fst previous) (snd previous) False rendered
      | (s1, None) \<Rightarrow> go_home s1 rendered)"

text \<open>A navigation request and the session after a sequence of requests.\<close>

datatype nav_op =
    Transition string "string option" bool "int option"
  | Back "int option"
  | Home "int option"

fun nav_step :: "Session \<Rightarrow> nav_op \<Rightarrow> Session" where
  "nav_step s (Transition screen_id param add_to_stack rendered) =
     navigate_to s screen_id param add_to_stack rendered"
| "nav_step s (Back rendered) = go_back s rendered"
| "nav_step s (Home rendered) = go_home s rendered"

definition nav_run :: "Session \<Rightarrow> nav_op list \<Rightarrow> Session" where
  "nav_run s ops = foldl nav_step s ops"

text \<open>The session row that \<^verbatim>\<open>get_or_create_session\<close> creates.\<close>

definition new_Session :: Session where
  "new_Session = \<lparr> current_screen = ''SCR_WELCOME'', current_param = None,
                    navigation_stack = [], last_message_id = None,
                    session_quiz_state = None \<rparr>"

text \<open>The property of the specification: the top of the stack is not the current screen.\<close>

definition top_differs :: "Session \<Rightarrow> bool" where
  "top_differs s =
     (navigation_stack s = [] \<or> last (navigation_stack s) \<noteq> (current_screen s, current_param s))"


section \<open>Users, experience points and streaks (database/crud.py)\<close>

text \<open>
  The columns of \<^verbatim>\<open>User\<close> that the state machine reads or writes.  Experience points
  start at 0 and only grow, by the amounts 10, 15 and 20 that the handlers pass.
\<close>

record User =
  u_id :: int
  current_grade :: int
  streak_count :: int
  last_activity :: real
  total_xp :: nat
  weekly_xp :: nat
  week_start_date :: "real option"
  level :: int

text \<open>
  The integer square root, by search from above: \<open>isqrt_below n b\<close> is the largest
  \<open>k \<le> b\<close> with \<open>k * k \<le> n\<close>.
\<close>

fun isqrt_below :: "nat \<Rightarrow> nat \<Rightarrow> nat" where
  "isqrt_below n 0 = 0"
| "isqrt_below n (Suc b) = (if Suc b * Suc b \<le> n then Suc b else isqrt_below n b)"

definition isqrt :: "nat \<Rightarrow> nat" where
  "isqrt n = isqrt_below n n"

text \<open>
  \<^verbatim>\<open>add_xp\<close>.  \<^verbatim>\<open>(now - week_start_date).days\<close> is the number of whole days.  The level,
  \<^verbatim>\<open>int((total_xp / 100) ** 0.5) + 1\<close>, is one more than the integer square root of the
  whole hundreds of the total.
\<close>

definition add_xp :: "User \<Rightarrow> real \<Rightarrow> nat \<Rightarrow> User" where
  "add_xp u now xp_amount =
     (let u1 = (case week_start_date u of
                  Some start \<Rightarrow>
                    if \<lfloor>(now - start) / 86400\<rfloor> \<ge> 7
                    then u\<lparr>weekly_xp := 0, week_start_date := Some now\<rparr>
                    else u
                | None \<Rightarrow> u\<lparr>week_start_date := Some now\<rparr>);
          u2 = u1\<lparr>total_xp := total_xp u1 + xp_amount, weekly_xp := weekly_xp u1 + xp_amount\<rparr>
      in u2\<lparr>level := int (isqrt (total_xp u2 div 100)) + 1\<rparr>)"

definition update_user_streak :: "User \<Rightarrow> real \<Rightarrow> User" where
  "update_user_streak u now =
     (let time_diff = now - last_activity u
      in if time_diff < 24 * 3600 then u\<lparr>last_activity := now\<rparr>
         else if 24 * 3600 \<le> time_diff \<and> time_diff < 48 * 3600
           then u\<lparr>streak_count := streak_count u + 1, last_activity := now\<rparr>
         else u\<lparr>streak_count := 1, last_activity := now\<rparr>)"


section \<open>Quiz/Game Session Engine (handlers/quiz_handler.py, handlers/game_handler.py)\<close>

text \<open>
  The stored state a handler works on: the row and the session of the acting user
  (what \<^verbatim>\<open>get_or_create_user\<close> and \<^verbatim>\<open>get_or_create_session\<close> return) and the progress and
  review tables.
\<close>

record world =
  user :: User
  session :: Session
  progress :: "Progress list"
  review_queue :: "ReviewQueue list"

abbreviation stored_quiz :: "world \<Rightarrow> quiz_state option" where
  "stored_quiz w \<equiv> session_quiz_state (session w)"

text \<open>
  What a handler shows.  The variable bag of the summary screens is kept; the texts of
  the end-of-game reasons are the constructors of \<open>game_reason\<close>.
\<close>

datatype game_reason =
    TimesUp
  | TimesUpOnPresent
  | AllCompleted
  | GameOver "string option" string
  | SharedPracticeCompleted
  | TimedAssessmentCompleted
  | FastPacedCompleted

record quiz_summary =
  target_screen :: string
  correct_count :: int
  incorrect_count :: int
  skipped_count :: int
  accuracy_percentage :: int
  streak :: int
  xp_reward :: int
  curr_phase :: string

datatype outcome =
    Returned
  | Navigated string
  | QuestionShown string nat
  | FeedbackShown bool string
  | QuizSummaryShown quiz_summary
  | GameSummaryShown game_reason nat nat

text \<open>\<^verbatim>\<open>if msg: update_session_state(user.id, message_id=msg.message_id)\<close>\<close>

definition store_message :: "world \<Rightarrow> int option \<Rightarrow> world" where
  "store_message w rendered =
     w\<lparr>session := update_session_state (session w) None None rendered None False\<rparr>"

definition store_quiz_state :: "world \<Rightarrow> quiz_state \<Rightarrow> world" where
  "store_quiz_state w qs =
     w\<lparr>session := update_session_state (session w) None None None (Some qs) False\<rparr>"

text \<open>
  The three ways the handlers read the grade number out of the \<^verbatim>\<open>grade\<close> string of the
  quiz state.
\<close>

definition attempt_grade :: "string \<Rightarrow> int" where
  "attempt_grade g_raw =
     (case (if contains g_raw '' '' then bind_err (py_index (split_chr CHR '' '' g_raw) 1) py_int
            else py_int g_raw) of
        Inl e \<Rightarrow> 9
      | Inr v \<Rightarrow> v)"

definition review_grade :: "string \<Rightarrow> error + int" where
  "review_grade g =
     (if contains g '' '' then bind_err (py_index (split_chr CHR '' '' g) 1) py_int
      else if isdigit g then py_int g
      else Inr 9)"

definition summary_grade :: "string \<Rightarrow> error + int" where
  "summary_grade g =
     (if contains g ''Grade'' then bind_err (py_index (split_chr CHR '' '' g) 1) py_int
      else Inr 9)"

text \<open>
  A handler returns the state that is stored when it ends, and either what it showed or
  the exception it raised.  Every \<^verbatim>\<open>crud\<close> call commits at once, so what a handler
  stored before it raised stays stored.
\<close>

type_synonym handled = "world \<times> (error + outcome)"

text \<open>\<^verbatim>\<open>show_game_summary\<close> reads the stored quiz state again.\<close>

definition show_game_summary :: "world \<Rightarrow> game_reason \<Rightarrow> int option \<Rightarrow> handled" where
  "show_game_summary w reason rendered =
     (case session_quiz_state (session w) of
        None \<Rightarrow> (w, Inr Returned)
      | Some state \<Rightarrow>
          (case mode state of
             None \<Rightarrow> (w, Inl KeyError)
           | Some m \<Rightarrow>
               (let xp_earned = score state * (if m = ''SURVIVAL'' then 20 else 15)
                in (store_message w rendered,
                    Inr (GameSummaryShown reason (score state) xp_earned)))))"

definition present_game_question :: "world \<Rightarrow> real \<Rightarrow> int option \<Rightarrow> handled" where
  "present_game_question w now rendered =
     (case session_quiz_state (session w) of
        None \<Rightarrow> (w, Inr Returned)
      | Some state \<Rightarrow>
          (case mode state of
             None \<Rightarrow> (w, Inl KeyError)
           | Some m \<Rightarrow>
               if m = ''SPEEDRUN'' \<and> (start_time state = None \<or> duration state = None)
                 then (w, Inl KeyError)
               else if m = ''SPEEDRUN'' \<and> now - the (start_time state) > real_of_int (the (duration state))
                 then show_game_summary w TimesUpOnPresent rendered
               else if current_index state \<ge> length (questions state)
                 then show_game_summary w AllCompleted rendered
               else if m = ''SPEEDRUN'' \<and> the (duration state) = 0
                 then (w, Inl ZeroDivisionError)
               else (store_message w rendered,
                     Inr (QuestionShown ''SCR_GAME_PRES'' (current_index state)))))"

text \<open>\<^verbatim>\<open>q.get("correct_answer") or q.get("answer")\<close>\<close>

definition game_correct_opt :: "question \<Rightarrow> string option" where
  "game_correct_opt q = (if correct_answer q \<noteq> [] then Some (correct_answer q) else answer q)"

definition explanation_text :: "question \<Rightarrow> string" where
  "explanation_text q =
     strip (case explanation q of None \<Rightarrow> ''No explanation available.'' | Some e \<Rightarrow> e)"

text \<open>
  \<^verbatim>\<open>handle_game_answer\<close>.  The dictionary \<^verbatim>\<open>state\<close> is a local copy: its changes reach the
  store only through \<^verbatim>\<open>update_session_state\<close>, which the branches that end the run do
  not call.
\<close>

definition handle_game_answer :: "world \<Rightarrow> real \<Rightarrow> string option \<Rightarrow> int option \<Rightarrow> handled" where
  "handle_game_answer w now selected_opt rendered =
     (case session_quiz_state (session w) of
        None \<Rightarrow> (w, Inr Returned)
      | Some state \<Rightarrow>
          (case mode state of
             None \<Rightarrow> (w, Inl KeyError)
           | Some m \<Rightarrow>
               if m = ''SPEEDRUN'' \<and> (start_time state = None \<or> duration state = None)
                 then (w, Inl KeyError)
               else if m = ''SPEEDRUN''
                       \<and> now - the (start_time state) > real_of_int (the (duration state)) + 2
                 then show_game_summary w TimesUp rendered
               else
                 (case py_index (questions state) (current_index state) of
                    Inl e \<Rightarrow> (w, Inl e)
                  | Inr q \<Rightarrow>
                      (let correct_opt = game_correct_opt q;
                           is_correct = (selected_opt = correct_opt)
                       in if is_correct then
                            (let state1 = state\<lparr>score := score state + 1,
                                                last_feedback := Some CheckMark\<rparr>;
                                 xp = (if m = ''SURVIVAL'' then 20 else 15);
                                 w1 = w\<lparr>user := add_xp (user w) now xp\<rparr>;
                                 state2 = state1\<lparr>current_index := current_index state1 + 1\<rparr>
                             in if current_index state2 \<ge> length (questions state2)
                                then show_game_summary w1 AllCompleted rendered
                                else present_game_question (store_quiz_state w1 state2) now rendered)
                          else
                            (let state1 = state\<lparr>last_feedback := Some CrossMark\<rparr>
                             in if m = ''SURVIVAL''
                                then show_game_summary w
                                       (GameOver correct_opt (explanation_text q)) rendered
                                else
                                  (let state2 = state1\<lparr>current_index := current_index state1 + 1\<rparr>
                                   in if current_index state2 \<ge> length (questions state2)
                                      then
                                        (if m = ''CHALLENGE''
                                           then show_game_summary w SharedPracticeCompleted rendered
                                         else
                                           (case duration state2 of
                                              None \<Rightarrow> (w, Inl KeyError)
                                            | Some d \<Rightarrow>
                                                show_game_summary w
                                                  (if d > 300 then TimedAssessmentCompleted
                                                   else FastPacedCompleted) rendered))
                                      else present_game_question (store_quiz_state w state2)
                                             now rendered))))))"

text \<open>
  \<^verbatim>\<open>show_quiz_summary\<close>.  The message that \<^verbatim>\<open>render_screen\<close> returns is not stored here,
  and the streak shown is the one read before \<^verbatim>\<open>update_user_streak\<close> ran.
\<close>

definition derived_phase :: "real \<Rightarrow> string" where
  "derived_phase accuracy =
     (if accuracy \<ge> 95 then ''EXAM_BIASED''
      else if accuracy \<ge> 80 then ''BALANCED''
      else ''BASELINE'')"

definition summary_target_screen :: "quiz_state \<Rightarrow> string" where
  "summary_target_screen qs =
     (if contains (qs_unit_id qs) ''_REV_'' \<or> contains (qs_unit_id qs) ''SMART''
        then ''SCR_REVIEW_SUM''
      else if qs_unit qs = ''Random Quiz'' then ''SCR_RANDOM_SUM''
      else ''SCR_QUIZ_SUM'')"

definition show_quiz_summary :: "world \<Rightarrow> real \<Rightarrow> int option \<Rightarrow> handled" where
  "show_quiz_summary w now rendered =
     (case session_quiz_state (session w) of
        None \<Rightarrow> (w, Inr Returned)
      | Some qs \<Rightarrow>
          if mode qs = Some ''CHALLENGE''
            then show_game_summary w SharedPracticeCompleted rendered
          else if length (questions qs) = 0 then (w, Inl ZeroDivisionError)
          else
            (let accuracy = real (score qs) / real (length (questions qs)) * 100;
                 curr_phase_str = derived_phase accuracy
             in case summary_grade (qs_grade qs) of
                  Inl e \<Rightarrow> (w, Inl e)
                | Inr g \<Rightarrow>
                    (let tbl = fst (update_phase_progress (progress w) (u_id (user w))
                                      (qs_unit_id qs) (qs_subject qs) g curr_phase_str accuracy);
                         u' = update_user_streak (user w) now;
                         skipped = length (filter (\<lambda>h. selected h = Some ''SKIP'') (history qs));
                         xp_gained = \<lfloor>accuracy / 10\<rfloor> * 10
                     in (w\<lparr>progress := tbl, user := u'\<rparr>,
                         Inr (QuizSummaryShown
                                \<lparr> target_screen = summary_target_screen qs,
                                  correct_count = int (score qs),
                                  incorrect_count =
                                    int (length (questions qs)) - int (score qs) - int skipped,
                                  skipped_count = int skipped,
                                  accuracy_percentage = \<lfloor>accuracy\<rfloor>,
                                  streak = streak_count (user w),
                                  xp_reward = xp_gained,
                                  curr_phase = curr_phase_str \<rparr>)))))"

definition present_question :: "world \<Rightarrow> real \<Rightarrow> int option \<Rightarrow> handled" where
  "present_question w now rendered =
     (case session_quiz_state (session w) of
        None \<Rightarrow>
          (w\<lparr>session := navigate_to (session w) ''SCR_HUB'' None True rendered\<rparr>,
           Inr (Navigated ''SCR_HUB''))
      | Some qs \<Rightarrow>
          if current_index qs \<ge> length (questions qs) then show_quiz_summary w now rendered
          else (store_message w rendered,
                Inr (QuestionShown (if mode qs = Some ''CHALLENGE'' then ''SCR_GAME_PRES''
                                    else ''SCR_QUIZ_PRES'')
                       (current_index qs))))"

definition unit_of_question :: "question \<Rightarrow> string \<Rightarrow> string" where
  "unit_of_question q dflt = (case source_unit q of None \<Rightarrow> dflt | Some u \<Rightarrow> u)"

text \<open>
  The second half of \<^verbatim>\<open>handle_answer_selection\<close>: the history entry, the stored quiz
  state and the feedback screen.
\<close>

definition record_answer ::
  "world \<Rightarrow> quiz_state \<Rightarrow> question \<Rightarrow> string option \<Rightarrow> bool \<Rightarrow> int option \<Rightarrow> handled" where
  "record_answer w qs q selected_opt is_corr rendered =
     (let qs1 = qs\<lparr>history := history qs @
                       [\<lparr> q_id = question_id q, selected = selected_opt,
                          correct = correct_answer q, is_correct = is_corr \<rparr>]\<rparr>;
          qs2 = (if mode qs1 = Some ''CHALLENGE''
                 then qs1\<lparr>last_feedback := Some (if is_corr then CheckMark else CrossMark)\<rparr>
                 else qs1)
      in (store_message (store_quiz_state w qs2) rendered,
          Inr (FeedbackShown is_corr (correct_answer q))))"

definition handle_answer_selection :: "world \<Rightarrow> real \<Rightarrow> string option \<Rightarrow> int option \<Rightarrow> handled" where
  "handle_answer_selection w now selected_opt rendered =
     (case session_quiz_state (session w) of
        None \<Rightarrow> (w, Inr Returned)
      | Some qs \<Rightarrow>
          if mode qs = Some ''SPEEDRUN'' \<or> mode qs = Some ''SURVIVAL''
            then handle_game_answer w now selected_opt rendered
          else
            (case py_index (questions qs) (current_index qs) of
               Inl e \<Rightarrow> (w, Inl e)
             | Inr q \<Rightarrow>
                 (let is_corr = (selected_opt = Some (correct_answer q));
                      grade_val = attempt_grade (qs_grade qs);
                      w1 = w\<lparr>progress := fst (record_quiz_attempt (progress w) (u_id (user w))
                                                (unit_of_question q (qs_unit_id qs)) (qs_subject qs)
                                                grade_val is_corr)\<rparr>
                  in if is_corr then
                       record_answer
                         (w1\<lparr>user := add_xp (user w1) now 10,
                             review_queue := remove_from_review_queue (review_queue w1)
                                               (u_id (user w1)) (question_id q)\<rparr>)
                         (qs\<lparr>score := score qs + 1\<rparr>) q selected_opt is_corr rendered
                     else
                       (case review_grade (qs_grade qs) of
                          Inl e \<Rightarrow> (w1, Inl e)
                        | Inr g \<Rightarrow>
                            record_answer
                              (w1\<lparr>review_queue :=
                                    fst (add_to_review_queue (review_queue w1) now (u_id (user w1))
                                           (question_id q) ''MISTAKE'' (qs_subject qs) g
                                           (unit_of_question q (qs_unit qs)))\<rparr>)
                              qs q selected_opt is_corr rendered))))"

definition skip_question :: "world \<Rightarrow> real \<Rightarrow> int option \<Rightarrow> handled" where
  "skip_question w now rendered =
     (case session_quiz_state (session w) of
        None \<Rightarrow> (w, Inr Returned)
      | Some qs \<Rightarrow>
          if current_index qs \<ge> length (questions qs) then show_quiz_summary w now rendered
          else
            (let q = questions qs ! current_index qs;
                 qs1 = qs\<lparr>history := history qs @
                                  [\<lparr> q_id = question_id q, selected = Some ''SKIP'',
                                     correct = correct_answer q, is_correct = False \<rparr>]\<rparr>
             in case review_grade (qs_grade qs) of
                  Inl e \<Rightarrow> (w, Inl e)
                | Inr g \<Rightarrow>
                    (let w1 = w\<lparr>review_queue :=
                                  fst (add_to_review_queue (review_queue w) now (u_id (user w))
                                         (question_id q) ''SKIPPED'' (qs_subject qs) g (qs_unit qs))\<rparr>;
                         qs2 = qs1\<lparr>current_index := current_index qs1 + 1\<rparr>
                     in present_question (store_quiz_state w1 qs2) now rendered)))"

definition next_question :: "world \<Rightarrow> real \<Rightarrow> int option \<Rightarrow> handled" where
  "next_question w now rendered =
     (case session_quiz_state (session w) of
        None \<Rightarrow> (w, Inr Returned)
      | Some qs \<Rightarrow>
          present_question (store_quiz_state w (qs\<lparr>current_index := current_index qs + 1\<rparr>))
            now rendered)"

text \<open>
  The requests of a quiz run as the router dispatches them: \<^verbatim>\<open>ANS|...\<close> to
  \<^verbatim>\<open>handle_answer_selection\<close>, \<^verbatim>\<open>ACT|QUIZ|LOAD_NEXT\<close> to \<^verbatim>\<open>next_question\<close> and
  \<^verbatim>\<open>ACT|QUIZ|SKIP\<close> to \<^verbatim>\<open>skip_question\<close>.  Each request comes with the clock reading and
  with what the renderer returned.  The router catches an exception of a handler, so
  the next request runs on the state that was stored.
\<close>

datatype quiz_action = Answer "string option" | Next | Skip

fun quiz_step :: "world \<Rightarrow> quiz_action \<times> real \<times> int option \<Rightarrow> handled" where
  "quiz_step w (Answer selected_opt, now, rendered) = handle_answer_selection w now selected_opt rendered"
| "quiz_step w (Next, now, rendered) = next_question w now rendered"
| "quiz_step w (Skip, now, rendered) = skip_question w now rendered"

definition quiz_run :: "world \<Rightarrow> (quiz_action \<times> real \<times> int option) list \<Rightarrow> world" where
  "quiz_run w reqs = foldl (\<lambda>w r. fst (quiz_step w r)) w reqs"


section \<open>Starting a unit quiz (handlers/quiz_handler.py)\<close>

text \<open>The subject table of the start functions: a code that is not in it (also \<^verbatim>\<open>"MIXED"\<close>, which
  \<^verbatim>\<open>start_speedrun\<close> maps to \<^verbatim>\<open>None\<close>) has no subject name.\<close>

definition subj_map :: "string \<Rightarrow> string option" where
  "subj_map code =
     (if code = ''BIO'' then Some ''Biology''
      else if code = ''CHEM'' then Some ''Chemistry''
      else if code = ''PHYS'' then Some ''Physics''
      else if code = ''MATH'' then Some ''Mathematics''
      else None)"

text \<open>
  \<^verbatim>\<open>start_quiz_session\<close>; \<open>loaded\<close> is the question list that
  \<^verbatim>\<open>QuestionEngine.load_unit_questions\<close> returned.  \<^verbatim>\<open>grade.replace(' ', '')\<close> removes the
  blanks, and every question gets the unit label as its \<^verbatim>\<open>source_unit\<close>.
\<close>

definition quiz_subject :: "string \<Rightarrow> string" where
  "quiz_subject subject_code = (case subj_map subject_code of None \<Rightarrow> subject_code | Some sb \<Rightarrow> sb)"

definition quiz_unit_id :: "string \<Rightarrow> string \<Rightarrow> string \<Rightarrow> string" where
  "quiz_unit_id subject_code grade unit =
     (let unit_num = (if contains unit '' '' then split_chr CHR '' '' unit ! 1 else ''1'')
      in subject_code @ ''_'' @ filter (\<lambda>c. c \<noteq> CHR '' '') grade @ ''_U'' @ unit_num)"

definition start_quiz_session ::
  "world \<Rightarrow> real \<Rightarrow> string \<Rightarrow> string \<Rightarrow> string \<Rightarrow> question list \<Rightarrow> int option \<Rightarrow> handled" where
  "start_quiz_session w now subject_code grade unit loaded rendered =
     (if loaded = [] then (w, Inr Returned)
      else
        (let qs = \<lparr> mode = None,
                    duration = None,
                    start_time = None,
                    qs_subject = quiz_subject subject_code,
                    qs_grade = grade,
                    qs_unit = unit,
                    qs_unit_id = quiz_unit_id subject_code grade unit,
                    questions = map (\<lambda>q. q\<lparr>source_unit := Some unit\<rparr>) loaded,
                    current_index = 0,
                    score = 0,
                    history = [],
                    last_feedback = None \<rparr>
         in present_question (store_quiz_state w qs) now rendered))"


section \<open>Starting a game run (handlers/game_handler.py)\<close>

text \<open>\<^verbatim>\<open>str(n)\<close> for an integer, and \<^verbatim>\<open>int(x)\<close> for a float (truncation towards zero).\<close>

fun str_nat :: "nat \<Rightarrow> string" where
  "str_nat n =
     (if n < 10 then [char_of (48 + n)]
      else str_nat (n div 10) @ [char_of (48 + n mod 10)])"

declare str_nat.simps [simp del]

definition str_int :: "int \<Rightarrow> string" where
  "str_int i = (if i < 0 then CHR ''-'' # str_nat (nat (- i)) else str_nat (nat i))"

definition py_trunc :: "real \<Rightarrow> int" where
  "py_trunc x = (if x \<ge> 0 then \<lfloor>x\<rfloor> else \<lceil>x\<rceil>)"

text \<open>\<^verbatim>\<open>grade if grade else user.current_grade\<close>\<close>

definition active_grade :: "int option \<Rightarrow> User \<Rightarrow> int" where
  "active_grade grade u =
     (case grade of None \<Rightarrow> current_grade u | Some g \<Rightarrow> if g = 0 then current_grade u else g)"

text \<open>
  \<open>loaded\<close> is the list that \<^verbatim>\<open>_get_random_questions\<close> returned (for a challenge: the
  decoded \<^verbatim>\<open>questions_json\<close>).
\<close>

definition start_speedrun ::
  "world \<Rightarrow> real \<Rightarrow> int \<Rightarrow> string option \<Rightarrow> int option \<Rightarrow> question list \<Rightarrow> int option \<Rightarrow> handled" where
  "start_speedrun w now duration_seconds subject_code grade loaded rendered =
     (let g = active_grade grade (user w);
          subject = (case subject_code of None \<Rightarrow> None | Some c \<Rightarrow> subj_map c)
      in if loaded = [] then (w, Inr Returned)
         else
           (let qs = \<lparr> mode = Some ''SPEEDRUN'',
                       duration = Some duration_seconds,
                       start_time = Some now,
                       qs_subject = (case subject of None \<Rightarrow> ''Mixed Science'' | Some sb \<Rightarrow> sb),
                       qs_grade = ''Grade '' @ str_int g,
                       qs_unit = (if duration_seconds \<le> 300 then ''Sprint'' else ''Exam Mode''),
                       qs_unit_id = ''SR_'' @ str_int duration_seconds @ ''_'' @ str_int (py_trunc now),
                       questions = loaded,
                       current_index = 0,
                       score = 0,
                       history = [],
                       last_feedback = Some Gamepad \<rparr>;
                w1 = w\<lparr>session := update_session_state (session w) (Some ''SCR_GAME_PRES'') None
                                     None (Some qs) False\<rparr>
            in present_game_question w1 now rendered))"

definition start_survival ::
  "world \<Rightarrow> real \<Rightarrow> string \<Rightarrow> int option \<Rightarrow> question list \<Rightarrow> int option \<Rightarrow> handled" where
  "start_survival w now subject_code grade loaded rendered =
     (let g = active_grade grade (user w);
          subject = (case subj_map subject_code of None \<Rightarrow> subject_code | Some sb \<Rightarrow> sb)
      in if loaded = [] then (w, Inr Returned)
         else
           (let qs = \<lparr> mode = Some ''SURVIVAL'',
                       duration = None,
                       start_time = None,
                       qs_subject = subject,
                       qs_grade = ''Grade '' @ str_int g,
                       qs_unit = ''Survival Mode'',
                       qs_unit_id = ''SURVIVAL_'' @ subject_code @ ''_'' @ str_int (py_trunc now),
                       questions = loaded,
                       current_index = 0,
                       score = 0,
                       history = [],
                       last_feedback = Some Gamepad \<rparr>;
                w1 = w\<lparr>session := update_session_state (session w) (Some ''SCR_GAME_PRES'') None
                                     None (Some qs) False\<rparr>
            in present_game_question w1 now rendered))"

definition start_challenge_session ::
  "world \<Rightarrow> real \<Rightarrow> string \<Rightarrow> string option \<Rightarrow> int \<Rightarrow> question list \<Rightarrow> int option \<Rightarrow> handled" where
  "start_challenge_session w now challenge_id subject grade loaded rendered =
     (let qs = \<lparr> mode = Some ''CHALLENGE'',
                 duration = None,
                 start_time = None,
                 qs_subject = (case subject of None \<Rightarrow> ''Mixed Science''
                               | Some sb \<Rightarrow> if sb = [] then ''Mixed Science'' else sb),
                 qs_grade = ''Grade '' @ str_int grade,
                 qs_unit = ''Multiplayer Challenge'',
                 qs_unit_id = challenge_id,
                 questions = loaded,
                 current_index = 0,
                 score = 0,
                 history = [],
                 last_feedback = Some Gamepad \<rparr>
      in present_game_question (store_quiz_state w qs) now rendered)"

text \<open>
  The number of answers of a game run that are accepted (in time, on a question that
  exists) and right.  This counts answers; it does not read the stored score.
\<close>

definition answer_accepted :: "quiz_state \<Rightarrow> real \<Rightarrow> bool" where
  "answer_accepted qs now =
     (current_index qs < length (questions qs)
      \<and> (if mode qs = Some ''SPEEDRUN''
         then (case (start_time qs, duration qs) of
                 (Some t0, Some d) \<Rightarrow> now - t0 \<le> real_of_int d + 2
               | _ \<Rightarrow> False)
         else True))"

definition answer_right :: "world \<Rightarrow> real \<Rightarrow> string option \<Rightarrow> bool" where
  "answer_right w now selected_opt =
     (case session_quiz_state (session w) of
        None \<Rightarrow> False
      | Some qs \<Rightarrow>
          answer_accepted qs now
          \<and> selected_opt = game_correct_opt (questions qs ! current_index qs))"

fun game_run :: "world \<Rightarrow> (string option \<times> real \<times> int option) list \<Rightarrow> world" where
  "game_run w [] = w"
| "game_run w ((selected_opt, now, rendered) # reqs) =
     game_run (fst (handle_answer_selection w now selected_opt rendered)) reqs"

fun right_answers :: "world \<Rightarrow> (string option \<times> real \<times> int option) list \<Rightarrow> nat" where
  "right_answers w [] = 0"
| "right_answers w ((selected_opt, now, rendered) # reqs) =
     (if answer_right w now selected_opt then 1 else 0)
     + right_answers (fst (handle_answer_selection w now selected_opt rendered)) reqs"


section \<open>Lock Evaluator (utils/lock_manager.py)\<close>

text \<open>
  \<^verbatim>\<open>s.replace(old, new)\<close>: the occurrences of \<open>old\<close> are replaced from left to right
  without overlap; for an empty \<open>old\<close>, \<open>new\<close> is put before every character and at the
  end.
\<close>

function replace :: "string \<Rightarrow> string \<Rightarrow> string \<Rightarrow> string" where
  "replace s old new =
     (if old = [] then new @ concat (map (\<lambda>c. c # new) s)
      else if s = [] then []
      else if startswith s old then new @ replace (drop (length old) s) old new
      else hd s # replace (tl s) old new)"
  by pat_completeness auto
termination
  by (relation "measure (\<lambda>(s, old, new). length s)") auto

declare replace.simps [simp del]

text \<open>
  \<^verbatim>\<open>s.upper()\<close> on 8-bit characters: the sharp s becomes SS; the micro sign and the y
  with diaeresis, whose capitals are not 8-bit characters, are left as they are.
\<close>

definition upper_chr :: "char \<Rightarrow> string" where
  "upper_chr c =
     (let n = (of_char c :: nat)
      in if 97 \<le> n \<and> n \<le> 122 then [char_of (n - 32)]
         else if n = 223 then ''SS''
         else if 224 \<le> n \<and> n \<le> 254 \<and> n \<noteq> 247 then [char_of (n - 32)]
         else [c])"

definition upper :: "string \<Rightarrow> string" where
  "upper s = concat (map upper_chr s)"

text \<open>\<^verbatim>\<open>s.title()\<close> on ASCII text, as the names of the feature table are.\<close>

definition is_ascii_upper :: "char \<Rightarrow> bool" where
  "is_ascii_upper c = (65 \<le> (of_char c :: nat) \<and> (of_char c :: nat) \<le> 90)"

definition is_ascii_lower :: "char \<Rightarrow> bool" where
  "is_ascii_lower c = (97 \<le> (of_char c :: nat) \<and> (of_char c :: nat) \<le> 122)"

fun title_from :: "bool \<Rightarrow> string \<Rightarrow> string" where
  "title_from prev [] = []"
| "title_from prev (c # cs) =
     (if is_ascii_upper c then
        (if prev then char_of ((of_char c :: nat) + 32) else c) # title_from True cs
      else if is_ascii_lower c then
        (if prev then c else char_of ((of_char c :: nat) - 32)) # title_from True cs
      else c # title_from False cs)"

definition title :: "string \<Rightarrow> string" where
  "title s = title_from False s"

text \<open>
  \<^verbatim>\<open>re.findall(r'([A-Z]+)_G([0-9]+)_U([0-9]+)', s)\<close>.  A match at the start of \<open>s\<close>: the
  three groups and the length of the match.  Each repetition is greedy, and giving
  characters back never helps, since the character that has to follow is not in the
  repeated class.
\<close>

definition match_unit_id :: "string \<Rightarrow> ((string \<times> string \<times> string) \<times> nat) option" where
  "match_unit_id s =
     (let code = takeWhile is_ascii_upper s;
          r1 = dropWhile is_ascii_upper s;
          g = takeWhile is_ascii_digit (drop 2 r1);
          r2 = dropWhile is_ascii_digit (drop 2 r1);
          u = takeWhile is_ascii_digit (drop 2 r2)
      in if code \<noteq> [] \<and> startswith r1 ''_G'' \<and> g \<noteq> [] \<and> startswith r2 ''_U'' \<and> u \<noteq> []
         then Some ((code, g, u), length code + 2 + length g + 2 + length u)
         else None)"

text \<open>The scan of \<^verbatim>\<open>findall\<close>: \<open>skip\<close> characters still belong to the last match.\<close>

fun findall_from :: "nat \<Rightarrow> string \<Rightarrow> (string \<times> string \<times> string) list" where
  "findall_from skip [] = []"
| "findall_from skip (c # cs) =
     (if skip > 0 then findall_from (skip - 1) cs
      else (case match_unit_id (c # cs) of
              None \<Rightarrow> findall_from 0 cs
            | Some (m, n) \<Rightarrow> m # findall_from (n - 1) cs))"

definition findall_unit_ids :: "string \<Rightarrow> (string \<times> string \<times> string) list" where
  "findall_unit_ids s = findall_from 0 s"

text \<open>The model \<^verbatim>\<open>SystemLock\<close>, without its audit columns.\<close>

record SystemLock =
  lock_type :: string
  lock_target :: string
  is_locked :: bool

text \<open>
  The database as the evaluator sees it: the lock rows, the grade of the user rows by
  primary key, and the queries that fail (the driver raises).  \<open>admins\<close> below is
  \<^verbatim>\<open>config.ADMIN_IDS\<close>, read from the environment.
\<close>

datatype query_site = FeatureQuery | UserQuery | SubjectQuery | UnitQuery

record lock_db =
  system_locks :: "SystemLock list"
  user_grades :: "(int \<times> int) list"
  failing :: "query_site \<Rightarrow> bool"

definition active_lock :: "lock_db \<Rightarrow> string \<Rightarrow> string \<Rightarrow> bool" where
  "active_lock db ty target =
     list_ex (\<lambda>l. lock_type l = ty \<and> lock_target l = target \<and> is_locked l) (system_locks db)"

definition feature_map :: "string \<Rightarrow> string option" where
  "feature_map screen =
     (if screen \<in> set [''SCR_GAMEMODE'', ''SCR_SPEEDRUN_SETUP'', ''SCR_SPEEDRUN_SUBJECTS'',
                        ''SCR_SPEEDRUN_COUNTS'', ''SCR_SURVIVAL_SETUP'', ''SCR_GAME_PRES'']
        then Some ''ADVANCED_PRACTICE''
      else if screen = ''SCR_REVIEW_HUB'' then Some ''REVIEW_HUB''
      else if screen = ''SCR_PDF_VAULT'' then Some ''PDFS_AND_FILES''
      else if screen = ''SCR_RANKING'' then Some ''LEADERBOARD''
      else if screen \<in> set [''SCR_MULTIPLAYER_HUB'', ''SCR_MP_SUBJ_SELECT'', ''SCR_INVITES'']
        then Some ''PRACTICE_WITH_FRIENDS''
      else if screen = ''SCR_AI_CHAT'' then Some ''AI_TUTOR''
      else None)"

text \<open>\<^verbatim>\<open>param and sub in param\<close>, and \<^verbatim>\<open>sub in param\<close>, which raises for \<^verbatim>\<open>None\<close>.\<close>

definition param_has :: "string option \<Rightarrow> string \<Rightarrow> bool" where
  "param_has param sub = (case param of None \<Rightarrow> False | Some p \<Rightarrow> p \<noteq> [] \<and> contains p sub)"

definition in_param :: "string \<Rightarrow> string option \<Rightarrow> error + bool" where
  "in_param sub param = (case param of None \<Rightarrow> Inl TypeError | Some p \<Rightarrow> Inr (contains p sub))"

text \<open>\<^verbatim>\<open>a or b or c\<close> over tests that can raise: evaluation stops at the first true one.\<close>

fun any_in_param :: "string list \<Rightarrow> string option \<Rightarrow> error + bool" where
  "any_in_param [] param = Inr False"
| "any_in_param (sub # subs) param =
     (case in_param sub param of
        Inl e \<Rightarrow> Inl e
      | Inr b \<Rightarrow> if b then Inr True else any_in_param subs param)"

definition target_feature_of :: "string \<Rightarrow> string option \<Rightarrow> string option \<Rightarrow> string option" where
  "target_feature_of action screen param =
     (let t0 = (case screen of None \<Rightarrow> None | Some scr \<Rightarrow> feature_map scr);
          t1 = (if action = ''ACT'' \<and> param_has param ''SPEEDRUN'' then Some ''ADVANCED_PRACTICE'' else t0);
          t2 = (if action = ''ACT'' \<and> param_has param ''SURVIVAL'' then Some ''ADVANCED_PRACTICE'' else t1);
          t3 = (if action = ''ACT'' \<and> param_has param ''MP'' then Some ''PRACTICE_WITH_FRIENDS'' else t2)
      in t3)"

text \<open>
  The answer for a lock that was found.  The padlock and the shield emoji of the two
  messages are written \<open>(lock)\<close> and \<open>(shield)\<close>.
\<close>

definition lock_answer :: "int list \<Rightarrow> int \<Rightarrow> string \<Rightarrow> bool \<times> string" where
  "lock_answer admins telegram_id msg =
     (if telegram_id \<in> set admins then (False, ''(shield) LOCKED (Admin Bypass): '' @ msg)
      else (True, ''(lock) '' @ msg))"

definition is_grade :: "int \<Rightarrow> bool" where
  "is_grade v = (v = 9 \<or> v = 10 \<or> v = 11 \<or> v = 12)"

text \<open>The loop over the parts of the parameter that looks for a grade.\<close>

fun grade_of_parts :: "string list \<Rightarrow> error + int option" where
  "grade_of_parts [] = Inr None"
| "grade_of_parts (p # ps) =
     (let clean_p = strip (replace (replace p ''Grade'' []) ''G'' [])
      in if isdigit clean_p then
           (case py_int clean_p of
              Inl e \<Rightarrow> Inl e
            | Inr v \<Rightarrow> if is_grade v then Inr (Some v) else grade_of_parts ps)
         else grade_of_parts ps)"

definition param_parts :: "string \<Rightarrow> string list" where
  "param_parts p = split_chr CHR '':'' (replace p ''|'' '':'')"

definition grade_of_param :: "string option \<Rightarrow> error + int option" where
  "grade_of_param param =
     (case param of
        None \<Rightarrow> Inr None
      | Some p \<Rightarrow>
          if p = [] then Inr None
          else if isdigit p then
            (case py_int p of
               Inl e \<Rightarrow> Inl e
             | Inr v \<Rightarrow> if is_grade v then Inr (Some v) else grade_of_parts (param_parts p))
          else grade_of_parts (param_parts p))"

definition content_screens :: "string list" where
  "content_screens =
     [''SCR_UNITS'', ''SCR_QUIZ_PRES'', ''SCR_TOPIC_SELECTION'', ''SCR_UNIT_START'',
      ''SCR_REVIEW_HUB'', ''SCR_SPEEDRUN_SUBJECTS'', ''SCR_SURVIVAL_SETUP'',
      ''SCR_PDF_VAULT'', ''SCR_RANDOM_SETUP'']"

definition screen_in :: "string option \<Rightarrow> string list \<Rightarrow> bool" where
  "screen_in screen scrs = (case screen of None \<Rightarrow> False | Some scr \<Rightarrow> scr \<in> set scrs)"

text \<open>The grade of the user row, when the parameter carries none.\<close>

definition grade_fallback ::
  "lock_db \<Rightarrow> int \<Rightarrow> string \<Rightarrow> string option \<Rightarrow> string option \<Rightarrow> error + int option" where
  "grade_fallback db telegram_id action screen param =
     (case (if screen_in screen content_screens then Inr True
            else if action = ''ACT'' then any_in_param [''QUIZ'', ''SPEEDRUN'', ''SURVIVAL''] param
            else Inr False) of
        Inl e \<Rightarrow> Inl e
      | Inr wanted \<Rightarrow>
          if \<not> wanted then Inr None
          else if failing db UserQuery then Inl OperationalError
          else (case map_of (user_grades db) telegram_id of
                  None \<Rightarrow> Inr None
                | Some g \<Rightarrow> if g = 0 then Inr None else Inr (Some g)))"

definition subject_codes :: "(string \<times> string) list" where
  "subject_codes = [(''BIO'', ''Biology''), (''CHEM'', ''Chemistry''), (''PHYS'', ''Physics''),
                    (''MATH'', ''Mathematics'')]"

definition subject_of_param :: "string option \<Rightarrow> (string \<times> string) option" where
  "subject_of_param param =
     (case param of
        None \<Rightarrow> None
      | Some p \<Rightarrow> if p = [] then None
                  else find (\<lambda>(code, name). contains (upper p) code) subject_codes)"

text \<open>The unit identifiers that the parameter names.\<close>

fun unit_fields :: "string list \<Rightarrow> string \<times> string \<times> string \<Rightarrow> string \<times> string \<times> string" where
  "unit_fields [] acc = acc"
| "unit_fields (p0 # ps) (s_code, g_code, u_code) =
     (let p = strip p0
      in if p \<in> set (map fst subject_codes) then unit_fields ps (p, g_code, u_code)
         else if contains p ''G'' \<or> contains p ''Grad''
           then unit_fields ps (s_code, strip (replace (replace p ''Grade'' []) ''G'' []), u_code)
         else if contains p ''U'' \<or> contains p ''init''
           then unit_fields ps (s_code, g_code, strip (replace (replace p ''Unit'' []) ''U'' []))
         else unit_fields ps (s_code, g_code, u_code))"

definition potential_unit_ids :: "string \<Rightarrow> string list" where
  "potential_unit_ids p =
     (let matches = map (\<lambda>(c, g, u). c @ ''_G'' @ g @ ''_U'' @ u) (findall_unit_ids p)
      in if matches \<noteq> [] then matches
         else if contains p '':'' \<or> contains p ''|'' then
           (case unit_fields (param_parts p) ([], [], []) of
              (s_code, g_code, u_code) \<Rightarrow>
                if s_code \<noteq> [] \<and> g_code \<noteq> [] \<and> u_code \<noteq> []
                then [s_code @ ''_G'' @ g_code @ ''_U'' @ u_code]
                else [])
         else [])"

definition unit_ids_of ::
  "string \<Rightarrow> string option \<Rightarrow> string option \<Rightarrow> error + string list" where
  "unit_ids_of action screen param =
     (case (if screen_in screen [''SCR_QUIZ_PRES'', ''SCR_PDF_VAULT'', ''SCR_GAME_PRES''] then Inr True
            else if action = ''ACT'' then any_in_param [''QUIZ'', ''FILE'', ''SPEEDRUN''] param
            else Inr False) of
        Inl e \<Rightarrow> Inl e
      | Inr wanted \<Rightarrow>
          if wanted then
            (case param of
               None \<Rightarrow> Inr []
             | Some p \<Rightarrow> if p = [] then Inr [] else Inr (potential_unit_ids p))
          else Inr [])"

text \<open>The three stages of the \<^verbatim>\<open>try\<close> block, each ending the evaluation when a lock matches.\<close>

definition unit_stage ::
  "lock_db \<Rightarrow> int list \<Rightarrow> int \<Rightarrow> string \<Rightarrow> string option \<Rightarrow> string option \<Rightarrow> error + bool \<times> string" where
  "unit_stage db admins telegram_id action screen param =
     (case unit_ids_of action screen param of
        Inl e \<Rightarrow> Inl e
      | Inr potential_ids \<Rightarrow>
          if potential_ids = [] then Inr (False, [])
          else if failing db UnitQuery then Inl OperationalError
          else if list_ex (\<lambda>l. lock_type l = ''UNIT'' \<and> lock_target l \<in> set potential_ids
                                 \<and> is_locked l) (system_locks db)
            then Inr (lock_answer admins telegram_id ''This unit is currently locked.'')
          else Inr (False, []))"

definition subject_stage ::
  "lock_db \<Rightarrow> int list \<Rightarrow> int \<Rightarrow> string \<Rightarrow> string option \<Rightarrow> string option \<Rightarrow> int option
     \<Rightarrow> error + bool \<times> string" where
  "subject_stage db admins telegram_id action screen param target_grade =
     (case (subject_of_param param, target_grade) of
        (Some (code, subj_name), Some g) \<Rightarrow>
          if g = 0 then unit_stage db admins telegram_id action screen param
          else if failing db SubjectQuery then Inl OperationalError
          else if active_lock db ''SUBJECT'' (subj_name @ '':'' @ str_int g)
            then Inr (lock_answer admins telegram_id
                        (subj_name @ '' for Grade '' @ str_int g @ '' is locked.''))
          else unit_stage db admins telegram_id action screen param
      | _ \<Rightarrow> unit_stage db admins telegram_id action screen param)"

definition grade_stage ::
  "lock_db \<Rightarrow> int list \<Rightarrow> int \<Rightarrow> string \<Rightarrow> string option \<Rightarrow> string option \<Rightarrow> error + bool \<times> string" where
  "grade_stage db admins telegram_id action screen param =
     (case grade_of_param param of
        Inl e \<Rightarrow> Inl e
      | Inr (Some g) \<Rightarrow> subject_stage db admins telegram_id action screen param (Some g)
      | Inr None \<Rightarrow>
          (case grade_fallback db telegram_id action screen param of
             Inl e \<Rightarrow> Inl e
           | Inr target_grade \<Rightarrow>
               subject_stage db admins telegram_id action screen param target_grade))"

definition check_locks ::
  "lock_db \<Rightarrow> int list \<Rightarrow> int \<Rightarrow> string \<Rightarrow> string option \<Rightarrow> string option \<Rightarrow> error + bool \<times> string" where
  "check_locks db admins telegram_id action screen param =
     (case target_feature_of action screen param of
        None \<Rightarrow> grade_stage db admins telegram_id action screen param
      | Some target_feature \<Rightarrow>
          if failing db FeatureQuery then Inl OperationalError
          else if active_lock db ''FEATURE'' target_feature
            then Inr (lock_answer admins telegram_id
                        (title (replace target_feature ''_'' '' '') @ '' is currently locked.''))
          else grade_stage db admins telegram_id action screen param)"

text \<open>
  \<^verbatim>\<open>is_content_locked\<close>: the test for the administrative screens, then the \<^verbatim>\<open>try\<close> block
  with its \<^verbatim>\<open>except Exception\<close> handler.
\<close>

definition is_content_locked ::
  "lock_db \<Rightarrow> int list \<Rightarrow> int \<Rightarrow> string \<Rightarrow> string option \<Rightarrow> string option \<Rightarrow> bool \<times> string" where
  "is_content_locked db admins telegram_id action screen param =
     (if (case screen of
            None \<Rightarrow> False
          | Some scr \<Rightarrow> scr \<noteq> [] \<and> (startswith scr ''SCR_LOCK_'' \<or> startswith scr ''SCR_ADMIN_''))
      then (False, [])
      else (case check_locks db admins telegram_id action screen param of
              Inl e \<Rightarrow> (False, [])
            | Inr verdict \<Rightarrow> verdict))"


section \<open>Notions used to state the properties\<close>

text \<open>The entries of the history that record a right answer.\<close>

definition correct_entries :: "quiz_state \<Rightarrow> nat" where
  "correct_entries qs = length (filter is_correct (history qs))"

text \<open>
  The modes whose answers \<^verbatim>\<open>handle_answer_selection\<close> processes itself: the unit quiz
  and the review sessions (no \<^verbatim>\<open>mode\<close> key) and \<^verbatim>\<open>CHALLENGE\<close>.
\<close>

definition standard_mode :: "quiz_state \<Rightarrow> bool" where
  "standard_mode qs = (mode qs \<noteq> Some ''SPEEDRUN'' \<and> mode qs \<noteq> Some ''SURVIVAL'')"

text \<open>
  Between two stored states of one run: the mode is the same, the score has grown by
  the number of right answers recorded in the history, and the user has gained 10
  experience points for each of them.
\<close>

definition credited_in_step :: "world \<Rightarrow> quiz_state \<Rightarrow> world \<Rightarrow> quiz_state \<Rightarrow> bool" where
  "credited_in_step w qs w' qs' =
     (mode qs' = mode qs
      \<and> score qs \<le> score qs'
      \<and> score qs' + correct_entries qs = score qs + correct_entries qs'
      \<and> total_xp (user w') + 10 * score qs = total_xp (user w) + 10 * score qs')"


text \<open>
  An answer of the lock evaluation that blocks does so for a user who is no
  administrator, with a lock row that is switched on, and with a reason.
\<close>

definition found_and_blocked :: "lock_db \<Rightarrow> int list \<Rightarrow> int \<Rightarrow> error + bool \<times> string \<Rightarrow> bool" where
  "found_and_blocked db admins telegram_id res =
     (case res of
        Inl e \<Rightarrow> True
      | Inr (blocked, reason) \<Rightarrow>
          if blocked then telegram_id \<notin> set admins \<and> list_ex is_locked (system_locks db)
                          \<and> reason \<noteq> []
          else True)"


section \<open>A sample user and sample runs\<close>

definition demo_user :: User where
  "demo_user = \<lparr> u_id = 7, current_grade = 9, streak_count = 0, last_activity = 0,
                  total_xp = 0, weekly_xp = 0, week_start_date = Some 0, level = 1 \<rparr>"

definition demo_world :: world where
  "demo_world = \<lparr> user = demo_user, session = new_Session, progress = [], review_queue = [] \<rparr>"

text \<open>A question whose right option is A.\<close>

definition demo_question :: "string \<Rightarrow> question" where
  "demo_question qid = \<lparr> question_id = qid, correct_answer = ''A'', answer = None,
                          explanation = None, source_unit = None \<rparr>"

text \<open>The unit quiz of Biology, Grade 9, Unit 1 with the given questions, just started.\<close>

definition demo_quiz :: "string list \<Rightarrow> world" where
  "demo_quiz qids =
     fst (start_quiz_session demo_world 0 ''BIO'' ''Grade 9'' ''Unit 1'' (map demo_question qids)
            (Some 1))"

definition right_then_next :: "(quiz_action \<times> real \<times> int option) list" where
  "right_then_next = [(Answer (Some ''A''), 10, Some 1), (Next, 20, Some 1)]"

definition wrong_answer :: "quiz_action \<times> real \<times> int option" where
  "wrong_answer = (Answer (Some ''B''), 30, Some 1)"

text \<open>A 60-second speed run of two questions started at time 100, and a challenge.\<close>

definition demo_speedrun :: world where
  "demo_speedrun =
     fst (start_speedrun demo_world 100 60 (Some ''BIO'') None
            [demo_question ''Q1'', demo_question ''Q2''] (Some 1))"

definition demo_challenge :: world where
  "demo_challenge =
     fst (start_challenge_session demo_world 100 ''CH_100_3'' None 9
            [demo_question ''Q1'', demo_question ''Q2''] (Some 1))"


text \<open>A lock table with one unit lock switched on; user 5 is in grade 10.\<close>

definition demo_locks :: lock_db where
  "demo_locks =
     \<lparr> system_locks = [\<lparr> lock_type = ''UNIT'', lock_target = ''BIO_G10_U1'', is_locked = True \<rparr>],
       user_grades = [(5, 10)],
       failing = (\<lambda>q. False) \<rparr>"


section \<open>Progress Tracker: properties\<close>

lemma find_store_first:
  "P y \<Longrightarrow> find P (store_first P y xs) = Some y"
  by (induction xs) auto

lemma set_phase_accuracy_key:
  "progress_key uid unit (set_phase_accuracy p phase accuracy) = progress_key uid unit p"
  by (simp add: set_phase_accuracy_def progress_key_def Let_def)

lemma set_current_phase_key:
  "progress_key uid unit (set_current_phase p) = progress_key uid unit p"
  by (simp add: set_current_phase_def progress_key_def)

lemma new_Progress_key: "progress_key uid unit (new_Progress uid unit subj g)"
  by (simp add: new_Progress_def progress_key_def)

lemma get_user_progress_key:
  "get_user_progress tbl uid unit = Some p \<Longrightarrow> progress_key uid unit p"
  unfolding get_user_progress_def by (auto simp: find_Some_iff)

lemma update_phase_progress_stored:
  "get_user_progress (fst (update_phase_progress tbl uid unit subj g phase accuracy)) uid unit
     = Some (snd (update_phase_progress tbl uid unit subj g phase accuracy))"
proof -
  let ?p = "case get_user_progress tbl uid unit of
              None \<Rightarrow> new_Progress uid unit subj g | Some p \<Rightarrow> p"
  have "progress_key uid unit ?p"
    by (cases "get_user_progress tbl uid unit")
       (simp_all add: new_Progress_key get_user_progress_key)
  then have "progress_key uid unit (set_current_phase (set_phase_accuracy ?p phase accuracy))"
    by (simp add: set_current_phase_key set_phase_accuracy_key)
  then show ?thesis
    by (simp add: update_phase_progress_def Let_def get_user_progress_def find_store_first)
qed

lemma set_phase_accuracy_flags:
  "unlocked_balanced p \<Longrightarrow> unlocked_balanced (set_phase_accuracy p phase accuracy)"
  "unlocked_exam p \<Longrightarrow> unlocked_exam (set_phase_accuracy p phase accuracy)"
  by (simp_all add: set_phase_accuracy_def Let_def)

lemma set_current_phase_flags:
  "unlocked_balanced (set_current_phase p) = unlocked_balanced p"
  "unlocked_exam (set_current_phase p) = unlocked_exam p"
  by (simp_all add: set_current_phase_def)

lemma set_current_phase_highest:
  "current_phase (set_current_phase p) = highest_unlocked (set_current_phase p)"
  by (simp add: set_current_phase_def highest_unlocked_def)

lemma highest_unlocked_mono:
  "(unlocked_balanced p \<Longrightarrow> unlocked_balanced q) \<Longrightarrow> (unlocked_exam p \<Longrightarrow> unlocked_exam q)
   \<Longrightarrow> phase_rank (highest_unlocked p) \<le> phase_rank (highest_unlocked q)"
  by (auto simp: highest_unlocked_def phase_rank_def)

text \<open>One call of \<^verbatim>\<open>update_phase_progress\<close> on an existing record.\<close>

lemma update_phase_progress_step:
  fixes subj :: string and g :: int and phase :: string and accuracy :: real
  assumes "get_user_progress tbl uid unit = Some p"
  defines "p' \<equiv> snd (update_phase_progress tbl uid unit subj g phase accuracy)"
  shows "unlocked_balanced p \<Longrightarrow> unlocked_balanced p'"
    and "unlocked_exam p \<Longrightarrow> unlocked_exam p'"
    and "current_phase p' = highest_unlocked p'"
    and "phase_rank (highest_unlocked p) \<le> phase_rank (highest_unlocked p')"
proof -
  have eq: "p' = set_current_phase (set_phase_accuracy p phase accuracy)"
    using assms by (simp add: update_phase_progress_def Let_def)
  show b: "unlocked_balanced p \<Longrightarrow> unlocked_balanced p'"
    by (simp add: eq set_current_phase_flags set_phase_accuracy_flags)
  show e: "unlocked_exam p \<Longrightarrow> unlocked_exam p'"
    by (simp add: eq set_current_phase_flags set_phase_accuracy_flags)
  show "current_phase p' = highest_unlocked p'"
    by (simp add: eq set_current_phase_highest)
  show "phase_rank (highest_unlocked p) \<le> phase_rank (highest_unlocked p')"
    using b e by (rule highest_unlocked_mono)
qed

lemma complete_batches_invariant:
  assumes "get_user_progress tbl uid unit = Some p"
  shows "\<exists>p'. get_user_progress (complete_batches tbl uid unit subj g calls) uid unit = Some p'
           \<and> (unlocked_balanced p \<longrightarrow> unlocked_balanced p')
           \<and> (unlocked_exam p \<longrightarrow> unlocked_exam p')
           \<and> phase_rank (highest_unlocked p) \<le> phase_rank (highest_unlocked p')
           \<and> (calls \<noteq> [] \<longrightarrow> current_phase p' = highest_unlocked p')"
  using assms
proof (induction calls arbitrary: tbl p)
  case Nil
  then show ?case by simp
next
  case (Cons c calls)
  obtain phase accuracy where c: "c = (phase, accuracy)" by (cases c)
  let ?r = "update_phase_progress tbl uid unit subj g phase accuracy"
  have stored: "get_user_progress (fst ?r) uid unit = Some (snd ?r)"
    by (rule update_phase_progress_stored)
  note step = update_phase_progress_step [OF Cons.prems, of subj g phase accuracy]
  from Cons.IH [OF stored] obtain p' where
    p': "get_user_progress (complete_batches (fst ?r) uid unit subj g calls) uid unit = Some p'"
    and b: "unlocked_balanced (snd ?r) \<longrightarrow> unlocked_balanced p'"
    and e: "unlocked_exam (snd ?r) \<longrightarrow> unlocked_exam p'"
    and r: "phase_rank (highest_unlocked (snd ?r)) \<le> phase_rank (highest_unlocked p')"
    and h: "calls \<noteq> [] \<longrightarrow> current_phase p' = highest_unlocked p'"
    by blast
  have cur: "current_phase p' = highest_unlocked p'"
  proof (cases calls)
    case Nil
    with p' stored have "p' = snd ?r" by simp
    with step(3) show ?thesis by simp
  next
    case Cons
    with h show ?thesis by simp
  qed
  show ?case
    using p' b e r cur step(1,2,4) by (auto simp: c)
qed

text \<open>
  Claim C4.  Take any stored progress record and any sequence of later
  \<^verbatim>\<open>update_phase_progress\<close> (completeBatch) calls for its user and unit, with
  arbitrary phase strings and accuracies.  The record is still stored afterwards, an
  unlock flag that was set is still set, and after at least one call
  \<open>current_phase\<close> is exactly the highest unlocked phase, which is never below the
  highest phase that was unlocked before.
\<close>

theorem unlock_flags_never_regress:
  assumes "get_user_progress tbl uid unit = Some p"
    and "get_user_progress (complete_batches tbl uid unit subj g calls) uid unit = Some p'"
  shows "(unlocked_balanced p \<longrightarrow> unlocked_balanced p')
       \<and> (unlocked_exam p \<longrightarrow> unlocked_exam p')
       \<and> (calls \<noteq> [] \<longrightarrow> current_phase p' = highest_unlocked p'
                       \<and> phase_rank (highest_unlocked p) \<le> phase_rank (current_phase p'))"
  using complete_batches_invariant [OF assms(1), of subj g calls] assms(2) by auto


text \<open>
  A record with \<open>unlocked_balanced\<close> set, then a BASELINE batch with accuracy 35: the
  flag and the phase BALANCED stay.
\<close>

theorem unlock_flags_never_regress_witness:
  "(let p = (new_Progress 7 ''BIO_G9_U1'' ''Biology'' 9)
               \<lparr>current_phase := ''BALANCED'', unlocked_balanced := True\<rparr>;
        tbl' = complete_batches [p] 7 ''BIO_G9_U1'' ''Biology'' 9 [(''BASELINE'', 35)]
    in get_user_progress [p] 7 ''BIO_G9_U1'' = Some p
     \<and> get_user_progress tbl' 7 ''BIO_G9_U1'' = Some (p\<lparr>baseline_accuracy := 35\<rparr>)
     \<and> unlocked_balanced (p\<lparr>baseline_accuracy := 35\<rparr>)
     \<and> current_phase (p\<lparr>baseline_accuracy := 35\<rparr>) = ''BALANCED'')"
proof -
  define p where "p = (new_Progress 7 ''BIO_G9_U1'' ''Biology'' 9)
               \<lparr>current_phase := ''BALANCED'', unlocked_balanced := True\<rparr>"
  have a: "get_user_progress [p] 7 ''BIO_G9_U1'' = Some p"
    by (simp add: p_def get_user_progress_def progress_key_def new_Progress_def)
  have b: "get_user_progress (complete_batches [p] 7 ''BIO_G9_U1'' ''Biology'' 9 [(''BASELINE'', 35)])
             7 ''BIO_G9_U1'' = Some (p\<lparr>baseline_accuracy := 35\<rparr>)"
    by (simp add: p_def get_user_progress_def progress_key_def new_Progress_def
          update_phase_progress_def set_phase_accuracy_def set_current_phase_def
          PHASE_UNLOCK_THRESHOLD_def Let_def)
  from unlock_flags_never_regress [OF a b] a b show ?thesis
    by (simp add: p_def Let_def new_Progress_def)
qed


section \<open>Review Queue: properties\<close>

lemma filter_store_first_one:
  assumes "P y" and "length (filter P xs) \<le> 1"
  shows "filter P (store_first P y xs) = [y]"
  using assms
proof (induction xs)
  case Nil
  then show ?case by simp
next
  case (Cons x xs)
  show ?case
  proof (cases "P x")
    case True
    with Cons.prems have "filter P xs = []" by simp
    with True Cons.prems show ?thesis by simp
  next
    case False
    with Cons show ?thesis by simp
  qed
qed

lemma filter_store_first_other:
  assumes "\<And>x. Q x \<Longrightarrow> \<not> P x" and "\<not> Q y"
  shows "filter Q (store_first P y xs) = filter Q xs"
  using assms by (induction xs) auto

lemma find_None_filter: "find P xs = None \<Longrightarrow> filter P xs = []"
  by (induction xs) (auto split: if_splits)

lemma find_Some_holds: "find P xs = Some x \<Longrightarrow> P x"
  by (induction xs) (auto split: if_splits)

lemma add_to_review_queue_row:
  fixes now :: real and st subj unit :: string and g :: int
  assumes "length (rows_of uid qid tbl) \<le> 1"
  defines "res \<equiv> add_to_review_queue tbl now uid qid st subj g unit"
  shows "rows_of uid qid (fst res) = [snd res]"
    and "status (snd res) = st"
    and "added_at (snd res) = now"
    and "other_rows uid qid (fst res) = other_rows uid qid tbl"
proof -
  show "rows_of uid qid (fst res) = [snd res]"
  proof (cases "find (review_key uid qid) tbl")
    case None
    then show ?thesis
      by (simp add: res_def add_to_review_queue_def rows_of_def find_None_filter review_key_def
            Let_def)
  next
    case (Some e)
    then have k: "review_key uid qid e" by (rule find_Some_holds)
    then have "review_key uid qid
        ((if status e \<noteq> st then e\<lparr>status := st\<rparr> else e)\<lparr>added_at := now\<rparr>)"
      by (simp add: review_key_def)
    with Some assms(1) show ?thesis
      by (simp add: res_def add_to_review_queue_def rows_of_def Let_def filter_store_first_one)
  qed
  show "status (snd res) = st"
    by (simp add: res_def add_to_review_queue_def Let_def split: option.splits)
  show "added_at (snd res) = now"
    by (simp add: res_def add_to_review_queue_def Let_def split: option.splits)
  show "other_rows uid qid (fst res) = other_rows uid qid tbl"
  proof (cases "find (review_key uid qid) tbl")
    case None
    then show ?thesis
      by (simp add: res_def add_to_review_queue_def other_rows_def review_key_def Let_def)
  next
    case (Some e)
    then have k: "review_key uid qid e" by (rule find_Some_holds)
    then have "\<not> \<not> review_key uid qid
        ((if status e \<noteq> st then e\<lparr>status := st\<rparr> else e)\<lparr>added_at := now\<rparr>)"
      by (simp add: review_key_def)
    with Some show ?thesis
      by (simp add: res_def add_to_review_queue_def other_rows_def Let_def
            filter_store_first_other)
  qed
qed

text \<open>
  Adding and removing keep the queue free of duplicate keys, so every queue that is
  built from the empty table by these two operations has at most one row per
  (user, question).
\<close>

lemma add_to_review_queue_keeps_unique:
  assumes "\<And>u q. length (rows_of u q tbl) \<le> 1"
  shows "length (rows_of u q (fst (add_to_review_queue tbl now uid qid st subj g unit))) \<le> 1"
proof (cases "u = uid \<and> q = qid")
  case True
  then show ?thesis
    using add_to_review_queue_row(1) [OF assms, of uid qid now st subj g unit] by simp
next
  case False
  then have sub: "\<And>x. review_key u q x \<Longrightarrow> \<not> review_key uid qid x"
    by (auto simp: review_key_def)
  have "rows_of u q (fst (add_to_review_queue tbl now uid qid st subj g unit)) = rows_of u q tbl"
  proof (cases "find (review_key uid qid) tbl")
    case None
    with False show ?thesis
      by (auto simp: add_to_review_queue_def rows_of_def review_key_def Let_def)
  next
    case (Some e)
    then have "review_key uid qid e" by (rule find_Some_holds)
    then have "\<not> review_key u q
        ((if status e \<noteq> st then e\<lparr>status := st\<rparr> else e)\<lparr>added_at := now\<rparr>)"
      using False by (auto simp: review_key_def)
    with Some sub show ?thesis
      by (simp add: add_to_review_queue_def rows_of_def Let_def filter_store_first_other)
  qed
  with assms show ?thesis by simp
qed

lemma remove_from_review_queue_keeps_unique:
  assumes "length (rows_of u q tbl) \<le> 1"
  shows "length (rows_of u q (remove_from_review_queue tbl uid qid)) \<le> 1"
proof -
  have "length (filter (review_key u q) (filter (\<lambda>r. \<not> review_key uid qid r) tbl))
          \<le> length (filter (review_key u q) tbl)"
    by (induction tbl) auto
  with assms show ?thesis
    by (simp add: rows_of_def remove_from_review_queue_def)
qed

text \<open>
  Claim C9.  On a review queue that holds at most one row for (user, question), two
  calls of \<^verbatim>\<open>add_to_review_queue\<close> for that key, with any two statuses, leave exactly
  one row for the key: the row the second call returned, whose status is the second
  status and whose timestamp is the time of the second call.  The rows of all other
  keys are untouched.
\<close>

theorem review_queue_add_twice:
  assumes "length (rows_of uid qid tbl) \<le> 1"
  shows "let first_call = add_to_review_queue tbl now1 uid qid st1 subj1 g1 unit1;
             second_call = add_to_review_queue (fst first_call) now2 uid qid st2 subj2 g2 unit2
         in rows_of uid qid (fst second_call) = [snd second_call]
          \<and> status (snd second_call) = st2
          \<and> added_at (snd second_call) = now2
          \<and> other_rows uid qid (fst second_call) = other_rows uid qid tbl"
proof -
  let ?t1 = "fst (add_to_review_queue tbl now1 uid qid st1 subj1 g1 unit1)"
  have one: "length (rows_of uid qid ?t1) \<le> 1"
    using add_to_review_queue_row(1) [OF assms, of now1 st1 subj1 g1 unit1] by simp
  have keep: "other_rows uid qid ?t1 = other_rows uid qid tbl"
    by (rule add_to_review_queue_row(4) [OF assms])
  show ?thesis
    using add_to_review_queue_row [OF one, of now2 st2 subj2 g2 unit2] keep
    by (simp add: Let_def)
qed

theorem review_queue_add_twice_witness:
  "length (rows_of 7 ''BIO_9_1_Q3'' []) \<le> 1
   \<and> (let first_call = add_to_review_queue [] 100 7 ''BIO_9_1_Q3'' ''SKIPPED'' ''Biology'' 9 ''Unit 1'';
          second_call = add_to_review_queue (fst first_call) 250 7 ''BIO_9_1_Q3'' ''MISTAKE''
                          ''Biology'' 9 ''Unit 1''
      in fst second_call =
           [\<lparr> r_user_id = 7, r_subject = ''Biology'', r_grade = 9, r_unit = ''Unit 1'',
              r_question_id = ''BIO_9_1_Q3'', status = ''MISTAKE'', added_at = 250 \<rparr>]
       \<and> status (snd second_call) = ''MISTAKE'')"
proof -
  have h: "length (rows_of 7 ''BIO_9_1_Q3'' []) \<le> 1"
    by (simp add: rows_of_def)
  show ?thesis
    using h review_queue_add_twice [OF h, of 100 "''SKIPPED''" "''Biology''" 9 "''Unit 1''"
                                      250 "''MISTAKE''" "''Biology''" 9 "''Unit 1''"]
    by (simp add: add_to_review_queue_def review_key_def Let_def)
qed


section \<open>Navigation Controller: properties\<close>

lemma length_last10: "length (last10 xs) \<le> 10"
  by (simp add: last10_def)

lemma update_session_state_bounded:
  assumes "length (navigation_stack s) \<le> 10"
  shows "length (navigation_stack (update_session_state s screen param message_id qs add)) \<le> 10"
  using assms
  by (auto simp: update_session_state_def Let_def length_last10 split: option.splits)

lemma navigate_to_bounded:
  assumes "length (navigation_stack s) \<le> 10"
  shows "length (navigation_stack (navigate_to s screen_id param add rendered)) \<le> 10"
  using assms by (simp add: navigate_to_def update_session_state_bounded split: option.splits)

lemma pop_navigation_stack_bounded:
  assumes "length (navigation_stack s) \<le> 10"
  shows "length (navigation_stack (fst (pop_navigation_stack s))) \<le> 10"
  using assms by (auto simp: pop_navigation_stack_def Let_def)

lemma go_home_bounded:
  assumes "length (navigation_stack s) \<le> 10"
  shows "length (navigation_stack (go_home s rendered)) \<le> 10"
  using assms by (simp add: go_home_def navigate_to_bounded update_session_state_bounded)

lemma go_back_bounded:
  assumes "length (navigation_stack s) \<le> 10"
  shows "length (navigation_stack (go_back s rendered)) \<le> 10"
proof (cases "pop_navigation_stack s")
  case (Pair s1 popped)
  with pop_navigation_stack_bounded [OF assms]
  have "length (navigation_stack s1) \<le> 10" by simp
  with Pair show ?thesis
    by (cases popped) (simp_all add: go_back_def go_home_bounded navigate_to_bounded)
qed

lemma nav_step_bounded:
  assumes "length (navigation_stack s) \<le> 10"
  shows "length (navigation_stack (nav_step s x)) \<le> 10"
  using assms by (cases x) (simp_all add: navigate_to_bounded go_back_bounded go_home_bounded)

lemma nav_run_bounded:
  assumes "length (navigation_stack s) \<le> 10"
  shows "length (navigation_stack (nav_run s ops)) \<le> 10"
  using assms unfolding nav_run_def
  by (induction ops arbitrary: s) (simp_all add: nav_step_bounded)

text \<open>What a transition that pushes stores.\<close>

lemma navigate_to_push:
  fixes param :: "string option" and m :: int
  assumes "scr \<noteq> []" and "current_screen s \<noteq> scr"
  defines "s' \<equiv> navigate_to s scr param True (Some m)"
  shows "navigation_stack s' = last10 (navigation_stack s @ [(current_screen s, current_param s)])"
    and "current_screen s' = scr" and "current_param s' = param"
    and "top_differs s'"
proof -
  show stack: "navigation_stack s' = last10 (navigation_stack s @ [(current_screen s, current_param s)])"
    using assms by (simp add: navigate_to_def update_session_state_def Let_def)
  show cur: "current_screen s' = scr"
    using assms by (simp add: navigate_to_def update_session_state_def Let_def)
  show "current_param s' = param"
    using assms by (simp add: navigate_to_def update_session_state_def Let_def)
  have "last (last10 (navigation_stack s @ [(current_screen s, current_param s)]))
          = (current_screen s, current_param s)"
    by (simp add: last10_def)
  with stack cur assms(2) show "top_differs s'"
    by (auto simp: top_differs_def)
qed

text \<open>\<^verbatim>\<open>go_home\<close> leaves the stored stack as it was.\<close>

lemma go_home_keeps_stack:
  "navigation_stack (go_home s rendered) = navigation_stack s"
  by (simp add: go_home_def navigate_to_def update_session_state_def Let_def split: option.splits)

text \<open>
  Claim C8, as stated, fails.  From the first session of a user: open the settings
  (pushed), open the language screen from there (pushed), and return to the settings by
  a transition that does not push, as the language action of the router does.  The
  stack then ends with the settings screen, which is also the current screen.
\<close>

theorem nav_top_equals_current_counterexample:
  "\<not> top_differs (nav_run new_Session
        [Transition ''SCR_SETTINGS'' None True (Some 1),
         Transition ''SCR_LANG'' None True (Some 1),
         Transition ''SCR_SETTINGS'' None False (Some 1)])"
  by (simp add: nav_run_def navigate_to_def update_session_state_def new_Session_def
        top_differs_def last10_def Let_def)

text \<open>
  Claim C8, amended.  If the stored stack has at most 10 entries (the stack of a new
  session is empty), it has at most 10 entries after every sequence of transitions
  (pushing or not, rendered or not), back and home requests.  A transition to another
  screen that pushes stores the previous stack with the pair that was current
  appended, cut to its last 10 entries, so the oldest entries go first; after it the
  top of the stack differs from the current pair.
\<close>

theorem nav_stack_bounded:
  assumes "length (navigation_stack s) \<le> 10"
  shows "length (navigation_stack (nav_run s ops)) \<le> 10
       \<and> (\<forall>scr param m. scr \<noteq> [] \<and> current_screen s \<noteq> scr \<longrightarrow>
            navigation_stack (navigate_to s scr param True (Some m))
              = last10 (navigation_stack s @ [(current_screen s, current_param s)])
            \<and> top_differs (navigate_to s scr param True (Some m)))"
  using nav_run_bounded [OF assms] navigate_to_push(1,4) by blast

theorem nav_stack_bounded_witness:
  "length (navigation_stack new_Session) \<le> 10
   \<and> length (navigation_stack (nav_run new_Session
        [Transition ''SCR_HUB'' None True (Some 1), Back None, Home (Some 2)])) \<le> 10
   \<and> navigation_stack (navigate_to new_Session ''SCR_HUB'' None True (Some 1))
        = [(''SCR_WELCOME'', None)]
   \<and> top_differs (navigate_to new_Session ''SCR_HUB'' None True (Some 1))"
proof -
  have h: "length (navigation_stack new_Session) \<le> 10"
    by (simp add: new_Session_def)
  have c: "current_screen new_Session \<noteq> ''SCR_HUB''"
    by (simp add: new_Session_def)
  from nav_stack_bounded [OF h, of "[Transition ''SCR_HUB'' None True (Some 1), Back None, Home (Some 2)]"]
  show ?thesis
    using h c by (simp add: new_Session_def last10_def)
qed



section \<open>Quiz/Game Session Engine: what each handler leaves stored\<close>

lemma update_session_state_quiz:
  "session_quiz_state (update_session_state s screen param message_id qs add) =
     (case qs of None \<Rightarrow> session_quiz_state s | Some q \<Rightarrow> Some q)"
  by (simp add: update_session_state_def Let_def split: option.splits)

lemma store_message_proj [simp]:
  "stored_quiz (store_message w r) = stored_quiz w"
  "user (store_message w r) = user w"
  "progress (store_message w r) = progress w"
  "review_queue (store_message w r) = review_queue w"
  by (simp_all add: store_message_def update_session_state_quiz)

lemma store_quiz_state_proj [simp]:
  "stored_quiz (store_quiz_state w qs) = Some qs"
  "user (store_quiz_state w qs) = user w"
  "progress (store_quiz_state w qs) = progress w"
  "review_queue (store_quiz_state w qs) = review_queue w"
  by (simp_all add: store_quiz_state_def update_session_state_quiz)

lemma show_game_summary_proj [simp]:
  "stored_quiz (fst (show_game_summary w reason r)) = stored_quiz w"
  "user (fst (show_game_summary w reason r)) = user w"
  "progress (fst (show_game_summary w reason r)) = progress w"
  "review_queue (fst (show_game_summary w reason r)) = review_queue w"
  by (simp_all add: show_game_summary_def Let_def split: option.splits)

lemma present_game_question_proj [simp]:
  "stored_quiz (fst (present_game_question w now r)) = stored_quiz w"
  "user (fst (present_game_question w now r)) = user w"
  "progress (fst (present_game_question w now r)) = progress w"
  "review_queue (fst (present_game_question w now r)) = review_queue w"
  by (simp_all add: present_game_question_def Let_def split: option.splits)

text \<open>The level that \<^verbatim>\<open>add_xp\<close> stores is the one of the Python formula.\<close>

lemma isqrt_below_spec:
  "isqrt_below n b * isqrt_below n b \<le> n \<and> isqrt_below n b \<le> b
   \<and> (\<forall>k\<le>b. k * k \<le> n \<longrightarrow> k \<le> isqrt_below n b)"
proof (induction b)
  case 0
  then show ?case by simp
next
  case (Suc b)
  show ?case
  proof (cases "Suc b * Suc b \<le> n")
    case True
    then show ?thesis by simp
  next
    case False
    have "k \<le> isqrt_below n b" if "k \<le> Suc b" and "k * k \<le> n" for k
    proof -
      from that False have "k \<noteq> Suc b" by auto
      with that(1) have "k \<le> b" by simp
      with Suc that(2) show ?thesis by blast
    qed
    with False Suc show ?thesis by (auto simp: le_Suc_eq)
  qed
qed

lemma isqrt_bounds: "isqrt n * isqrt n \<le> n" "n < Suc (isqrt n) * Suc (isqrt n)"
proof -
  show "isqrt n * isqrt n \<le> n"
    using isqrt_below_spec [of n n] by (simp add: isqrt_def)
  show "n < Suc (isqrt n) * Suc (isqrt n)"
  proof (cases "Suc (isqrt n) \<le> n")
    case True
    show ?thesis
    proof (rule ccontr)
      assume "\<not> n < Suc (isqrt n) * Suc (isqrt n)"
      then have "Suc (isqrt n) * Suc (isqrt n) \<le> n" by simp
      with True isqrt_below_spec [of n n] have "Suc (isqrt n) \<le> isqrt n"
        by (simp add: isqrt_def)
      then show False by simp
    qed
  next
    case False
    then have "n \<le> isqrt n" by simp
    then have "n < Suc (isqrt n)" by simp
    also have "\<dots> \<le> Suc (isqrt n) * Suc (isqrt n)" by simp
    finally show ?thesis .
  qed
qed

lemma isqrt_hundreds: "int (isqrt (n div 100)) = \<lfloor>sqrt (real n / 100)\<rfloor>"
proof -
  let ?k = "isqrt (n div 100)"
  have lo: "?k * ?k \<le> n div 100" and hi: "n div 100 < Suc ?k * Suc ?k"
    by (rule isqrt_bounds)+
  from lo have "100 * (?k * ?k) \<le> n" by simp
  then have "real (100 * (?k * ?k)) \<le> real n" by (rule of_nat_mono)
  then have "(real ?k)\<^sup>2 \<le> real n / 100" by (simp add: power2_eq_square)
  then have a: "real ?k \<le> sqrt (real n / 100)" by (rule real_le_rsqrt)
  from hi have "n < 100 * (Suc ?k * Suc ?k)" by simp
  then have "real n < real (100 * (Suc ?k * Suc ?k))" by (simp only: of_nat_less_iff)
  then have "real n / 100 < (real ?k + 1)\<^sup>2" by (simp add: power2_eq_square algebra_simps)
  then have b: "sqrt (real n / 100) < real ?k + 1"
    by (intro real_less_lsqrt) simp_all
  have "\<lfloor>sqrt (real n / 100)\<rfloor> = int ?k"
  proof (rule floor_unique)
    show "of_int (int ?k) \<le> sqrt (real n / 100)" using a by simp
    show "sqrt (real n / 100) < of_int (int ?k) + 1" using b by simp
  qed
  then show ?thesis by simp
qed

lemma level_add_xp:
  "level (add_xp u now n) = \<lfloor>sqrt (real (total_xp u + n) / 100)\<rfloor> + 1"
proof -
  have "level (add_xp u now n) = int (isqrt ((total_xp u + n) div 100)) + 1"
    by (simp add: add_xp_def Let_def split: option.splits)
  then show ?thesis by (simp only: isqrt_hundreds)
qed

lemma total_xp_update_user_streak [simp]:
  "total_xp (update_user_streak u now) = total_xp u"
  by (simp add: update_user_streak_def Let_def)

lemma total_xp_add_xp [simp]: "total_xp (add_xp u now n) = total_xp u + n"
  by (simp add: add_xp_def Let_def split: option.splits)

lemma show_quiz_summary_proj [simp]:
  "stored_quiz (fst (show_quiz_summary w now r)) = stored_quiz w"
  "total_xp (user (fst (show_quiz_summary w now r))) = total_xp (user w)"
  "review_queue (fst (show_quiz_summary w now r)) = review_queue w"
  by (simp_all add: show_quiz_summary_def Let_def split: option.splits sum.splits)

lemma present_question_proj [simp]:
  "stored_quiz (fst (present_question w now r)) = stored_quiz w"
  "total_xp (user (fst (present_question w now r))) = total_xp (user w)"
  "review_queue (fst (present_question w now r)) = review_queue w"
    apply (simp_all add: present_question_def Let_def split: option.splits sum.splits)
    apply (simp_all add: navigate_to_def update_session_state_quiz split: option.splits)
  done

lemma next_question_proj:
  "stored_quiz (fst (next_question w now r)) =
     map_option (\<lambda>qs. qs\<lparr>current_index := current_index qs + 1\<rparr>) (stored_quiz w)"
  "total_xp (user (fst (next_question w now r))) = total_xp (user w)"
  "review_queue (fst (next_question w now r)) = review_queue w"
  by (simp_all add: next_question_def split: option.splits)

lemma record_answer_proj [simp]:
  "stored_quiz (fst (record_answer w qs q sel c r)) =
     Some ((if mode qs = Some ''CHALLENGE''
            then qs\<lparr>last_feedback := Some (if c then CheckMark else CrossMark)\<rparr> else qs)
           \<lparr>history := history qs @ [\<lparr> q_id = question_id q, selected = sel,
                          correct = correct_answer q, is_correct = c \<rparr>]\<rparr>)"
  "user (fst (record_answer w qs q sel c r)) = user w"
  "snd (record_answer w qs q sel c r) = Inr (FeedbackShown c (correct_answer q))"
  by (simp_all add: record_answer_def Let_def)

text \<open>The game modes: the stored history and mode, and the experience points.\<close>

lemma handle_game_answer_state:
  assumes "stored_quiz w = Some qs"
  shows "\<exists>qs'. stored_quiz (fst (handle_game_answer w now sel r)) = Some qs'
           \<and> history qs' = history qs \<and> mode qs' = mode qs"
  using assms
  by (auto simp: handle_game_answer_def Let_def split: option.splits sum.splits)

lemma handle_game_answer_xp:
  assumes "stored_quiz w = Some qs" and "mode qs = Some m"
  shows "total_xp (user (fst (handle_game_answer w now sel r))) =
           total_xp (user w)
           + (if answer_right w now sel then (if m = ''SURVIVAL'' then 20 else 15) else 0)"
  using assms
  by (auto simp: handle_game_answer_def answer_right_def answer_accepted_def py_index_def Let_def
           split: option.splits sum.splits)

lemma handle_answer_selection_game_state:
  assumes "stored_quiz w = Some qs"
    and "mode qs = Some ''SPEEDRUN'' \<or> mode qs = Some ''SURVIVAL''"
  shows "\<exists>qs'. stored_quiz (fst (handle_answer_selection w now sel r)) = Some qs'
           \<and> history qs' = history qs \<and> mode qs' = mode qs"
  using assms handle_game_answer_state [OF assms(1), of now sel r]
  by (auto simp: handle_answer_selection_def)

lemma game_run_state:
  assumes "stored_quiz w = Some qs"
    and "mode qs = Some ''SPEEDRUN'' \<or> mode qs = Some ''SURVIVAL''"
  shows "\<exists>qs'. stored_quiz (game_run w reqs) = Some qs'
           \<and> history qs' = history qs \<and> mode qs' = mode qs"
  using assms
proof (induction reqs arbitrary: w qs)
  case Nil
  then show ?case by simp
next
  case (Cons req reqs)
  obtain sel now r where req: "req = (sel, now, r)" by (cases req)
  from handle_answer_selection_game_state [OF Cons.prems, of now sel r]
  obtain qs1 where q1: "stored_quiz (fst (handle_answer_selection w now sel r)) = Some qs1"
    and h1: "history qs1 = history qs" and m1: "mode qs1 = mode qs"
    by blast
  from Cons.prems(2) m1 have "mode qs1 = Some ''SPEEDRUN'' \<or> mode qs1 = Some ''SURVIVAL''"
    by simp
  from Cons.IH [OF q1 this] h1 m1 show ?case
    by (auto simp: req)
qed

lemma game_run_xp:
  assumes "stored_quiz w = Some qs"
    and "mode qs = Some m" and "m = ''SPEEDRUN'' \<or> m = ''SURVIVAL''"
  shows "total_xp (user (game_run w reqs))
           = total_xp (user w) + (if m = ''SURVIVAL'' then 20 else 15) * right_answers w reqs"
  using assms(1,2)
proof (induction reqs arbitrary: w qs)
  case Nil
  then show ?case by simp
next
  case (Cons req reqs)
  obtain sel now r where req: "req = (sel, now, r)" by (cases req)
  have g: "mode qs = Some ''SPEEDRUN'' \<or> mode qs = Some ''SURVIVAL''"
    using Cons.prems(2) assms(3) by simp
  then have disp: "handle_answer_selection w now sel r = handle_game_answer w now sel r"
    using Cons.prems(1) by (auto simp: handle_answer_selection_def)
  from handle_answer_selection_game_state [OF Cons.prems(1) g, of now sel r]
  obtain qs1 where q1: "stored_quiz (fst (handle_answer_selection w now sel r)) = Some qs1"
    and m1: "mode qs1 = Some m"
    using Cons.prems(2) by auto
  have step: "total_xp (user (fst (handle_answer_selection w now sel r))) =
           total_xp (user w)
           + (if answer_right w now sel then (if m = ''SURVIVAL'' then 20 else 15) else 0)"
    unfolding disp by (rule handle_game_answer_xp [OF Cons.prems])
  show ?case
    using Cons.IH [OF q1 m1] step by (simp add: req algebra_simps)
qed

text \<open>The answer path of the unit quiz, the review sessions and the challenge.\<close>

lemma handle_answer_selection_standard:
  assumes "stored_quiz w = Some qs"
    and "mode qs \<noteq> Some ''SPEEDRUN''" and "mode qs \<noteq> Some ''SURVIVAL''"
    and "snd (handle_answer_selection w now sel r) = Inr out"
  defines "q \<equiv> questions qs ! current_index qs"
  shows "current_index qs < length (questions qs)"
    and "\<exists>qs'. stored_quiz (fst (handle_answer_selection w now sel r)) = Some qs'
           \<and> history qs' = history qs @ [\<lparr> q_id = question_id q, selected = sel,
                                            correct = correct_answer q,
                                            is_correct = (sel = Some (correct_answer q)) \<rparr>]
           \<and> current_index qs' = current_index qs
           \<and> questions qs' = questions qs
           \<and> mode qs' = mode qs
           \<and> score qs' = score qs + (if sel = Some (correct_answer q) then 1 else 0)"
    and "total_xp (user (fst (handle_answer_selection w now sel r)))
           = total_xp (user w) + (if sel = Some (correct_answer q) then 10 else 0)"
  using assms
  by (auto simp: handle_answer_selection_def py_index_def Let_def split: if_splits sum.splits)

lemma answer_step_credit:
  assumes "stored_quiz w = Some qs" and "standard_mode qs"
  shows "\<exists>qs'. stored_quiz (fst (handle_answer_selection w now sel r)) = Some qs'
           \<and> credited_in_step w qs (fst (handle_answer_selection w now sel r)) qs'"
  using assms
  by (auto simp: handle_answer_selection_def standard_mode_def credited_in_step_def
        correct_entries_def py_index_def Let_def split: sum.splits)

lemma next_step_credit:
  assumes "stored_quiz w = Some qs"
  shows "\<exists>qs'. stored_quiz (fst (next_question w now r)) = Some qs'
           \<and> credited_in_step w qs (fst (next_question w now r)) qs'"
  using assms
  by (simp add: next_question_proj credited_in_step_def correct_entries_def)

lemma skip_step_credit:
  assumes "stored_quiz w = Some qs"
  shows "\<exists>qs'. stored_quiz (fst (skip_question w now r)) = Some qs'
           \<and> credited_in_step w qs (fst (skip_question w now r)) qs'"
  using assms
  by (auto simp: skip_question_def credited_in_step_def correct_entries_def Let_def
        split: sum.splits)

lemma quiz_step_credit:
  assumes "stored_quiz w = Some qs" and "standard_mode qs"
  shows "\<exists>qs'. stored_quiz (fst (quiz_step w req)) = Some qs'
           \<and> credited_in_step w qs (fst (quiz_step w req)) qs'"
proof -
  obtain a now r where req: "req = (a, now, r)" by (cases req)
  show ?thesis
    using assms
    by (cases a) (simp_all add: req answer_step_credit next_step_credit skip_step_credit)
qed

lemma quiz_run_credit:
  assumes "stored_quiz w = Some qs" and "standard_mode qs"
  shows "\<exists>qs'. stored_quiz (quiz_run w reqs) = Some qs'
           \<and> credited_in_step w qs (quiz_run w reqs) qs'"
  using assms
proof (induction reqs arbitrary: w qs)
  case Nil
  then show ?case by (simp add: quiz_run_def credited_in_step_def)
next
  case (Cons req reqs)
  from quiz_step_credit [OF Cons.prems, of req]
  obtain qs1 where q1: "stored_quiz (fst (quiz_step w req)) = Some qs1"
    and c1: "credited_in_step w qs (fst (quiz_step w req)) qs1"
    by blast
  from c1 Cons.prems(2) have "standard_mode qs1"
    by (simp add: credited_in_step_def standard_mode_def)
  from Cons.IH [OF q1 this]
  obtain qs' where q': "stored_quiz (quiz_run (fst (quiz_step w req)) reqs) = Some qs'"
    and c': "credited_in_step (fst (quiz_step w req)) qs1 (quiz_run (fst (quiz_step w req)) reqs) qs'"
    by blast
  have run: "quiz_run w (req # reqs) = quiz_run (fst (quiz_step w req)) reqs"
    by (simp add: quiz_run_def)
  from c1 c' have "credited_in_step w qs (quiz_run (fst (quiz_step w req)) reqs) qs'"
    by (auto simp: credited_in_step_def)
  with q' run show ?case by simp
qed

lemma show_quiz_summary_reward:
  assumes "stored_quiz w = Some qs"
    and "snd (show_quiz_summary w now r) = Inr (QuizSummaryShown sm)"
  shows "xp_reward sm = \<lfloor>real (score qs) / real (length (questions qs)) * 100 / 10\<rfloor> * 10"
  using assms
  by (auto simp: show_quiz_summary_def show_game_summary_def Let_def
        split: if_splits option.splits sum.splits)

text \<open>The definitions a concrete run unfolds to.\<close>

lemmas demo_defs = demo_user_def demo_world_def demo_question_def demo_quiz_def
  right_then_next_def wrong_answer_def demo_speedrun_def demo_challenge_def

lemmas run_defs = quiz_run_def start_quiz_session_def start_speedrun_def
  start_challenge_session_def active_grade_def
  new_Session_def present_question_def present_game_question_def store_quiz_state_def
  store_message_def update_session_state_def handle_answer_selection_def handle_game_answer_def
  game_correct_opt_def show_game_summary_def next_question_def py_index_def record_answer_def
  attempt_grade_def review_grade_def summary_grade_def show_quiz_summary_def
  update_phase_progress_def set_phase_accuracy_def set_current_phase_def derived_phase_def
  PHASE_UNLOCK_THRESHOLD_def update_user_streak_def summary_target_screen_def
  record_quiz_attempt_def add_xp_def add_to_review_queue_def remove_from_review_queue_def
  Let_def quiz_subject_def quiz_unit_id_def subj_map_def unit_of_question_def bind_err_def
  py_int_def strip_def digits_value_def is_ascii_digit_def is_space_chr_def digit_val_def
  startswith_def get_user_progress_def progress_key_def new_Progress_def review_key_def

lemma replicate_9: "replicate 9 x = [x, x, x, x, x, x, x, x, x]"
  by (simp add: eval_nat_numeral)



section \<open>Quiz/Game Session Engine: the claims\<close>

text \<open>
  When the stored index is in range and the answer is right, or is wrong and the grade
  of the quiz state can be read for the review queue, the handler returns with the
  feedback screen.
\<close>

lemma handle_answer_selection_returns:
  assumes "stored_quiz w = Some qs"
    and "mode qs \<noteq> Some ''SPEEDRUN''" and "mode qs \<noteq> Some ''SURVIVAL''"
    and "current_index qs < length (questions qs)"
    and "sel = Some (correct_answer (questions qs ! current_index qs))
         \<or> review_grade (qs_grade qs) = Inr g"
  shows "snd (handle_answer_selection w now sel r)
           = Inr (FeedbackShown (sel = Some (correct_answer (questions qs ! current_index qs)))
                    (correct_answer (questions qs ! current_index qs)))"
  using assms
  by (auto simp: handle_answer_selection_def py_index_def Let_def)

text \<open>The grade strings of the curriculum, as the start functions store them, can be read.\<close>

lemma review_grade_curriculum:
  "review_grade ''Grade 9'' = Inr 9" "review_grade ''Grade 10'' = Inr 10"
  "review_grade ''Grade 11'' = Inr 11" "review_grade ''Grade 12'' = Inr 12"
  by (simp_all add: review_grade_def bind_err_def py_index_def py_int_def strip_def
        digits_value_def is_ascii_digit_def is_space_chr_def digit_val_def startswith_def Let_def)

text \<open>
  Claim C6.  In a unit quiz, a review session or a challenge (every mode but SPEEDRUN
  and SURVIVAL), take a stored state whose \<open>current_index\<close> points at a question, and
  an answer that is right, or wrong with a grade string that \<^verbatim>\<open>add_to_review_queue\<close>'s
  argument can be computed from.  Then \<^verbatim>\<open>handle_answer_selection\<close> shows the feedback
  screen with the correctness and the right option, the stored history is the old one
  with exactly one entry appended (question id, selected option, right option,
  correctness), and the stored \<open>current_index\<close> is unchanged; the following
  \<^verbatim>\<open>next_question\<close> stores that state with \<open>current_index\<close> one higher, whatever it
  shows afterwards.
\<close>

theorem answer_appends_then_next_advances:
  assumes "session_quiz_state (session w) = Some qs"
    and "mode qs \<noteq> Some ''SPEEDRUN''" and "mode qs \<noteq> Some ''SURVIVAL''"
    and "current_index qs < length (questions qs)"
    and "selected_opt = Some (correct_answer (questions qs ! current_index qs))
         \<or> review_grade (qs_grade qs) = Inr g"
  shows "snd (handle_answer_selection w now selected_opt rendered)
           = Inr (FeedbackShown
                    (selected_opt = Some (correct_answer (questions qs ! current_index qs)))
                    (correct_answer (questions qs ! current_index qs)))
       \<and> (\<exists>qs'. session_quiz_state (session (fst (handle_answer_selection w now selected_opt rendered)))
                   = Some qs'
              \<and> history qs' = history qs @
                    [\<lparr> q_id = question_id (questions qs ! current_index qs),
                       selected = selected_opt,
                       correct = correct_answer (questions qs ! current_index qs),
                       is_correct =
                         (selected_opt = Some (correct_answer (questions qs ! current_index qs))) \<rparr>]
              \<and> current_index qs' = current_index qs
              \<and> questions qs' = questions qs
              \<and> session_quiz_state (session (fst (next_question
                      (fst (handle_answer_selection w now selected_opt rendered)) now' rendered')))
                   = Some (qs'\<lparr>current_index := current_index qs + 1\<rparr>))"
proof -
  let ?w' = "fst (handle_answer_selection w now selected_opt rendered)"
  let ?q = "questions qs ! current_index qs"
  have s: "snd (handle_answer_selection w now selected_opt rendered)
             = Inr (FeedbackShown (selected_opt = Some (correct_answer ?q)) (correct_answer ?q))"
    by (rule handle_answer_selection_returns [OF assms])
  from handle_answer_selection_standard(2) [OF assms(1-3) s]
  obtain qs' where qs': "session_quiz_state (session ?w') = Some qs'"
    and h: "history qs' = history qs @
                 [\<lparr> q_id = question_id ?q, selected = selected_opt,
                    correct = correct_answer ?q,
                    is_correct = (selected_opt = Some (correct_answer ?q)) \<rparr>]"
    and i: "current_index qs' = current_index qs"
    and k: "questions qs' = questions qs"
    by auto
  have n: "session_quiz_state (session (fst (next_question ?w' now' rendered')))
             = Some (qs'\<lparr>current_index := current_index qs + 1\<rparr>)"
    using qs' i by (simp add: next_question_proj(1))
  from s qs' h i k n show ?thesis by blast
qed

text \<open>
  The first question of a unit quiz answered wrong, then \<^verbatim>\<open>next_question\<close>, then the
  second question answered right.
\<close>

theorem answer_appends_then_next_advances_witness:
  "(let w = demo_quiz [''Q1'', ''Q2''];
        w1 = fst (handle_answer_selection w 10 (Some ''B'') (Some 1));
        w2 = fst (next_question w1 20 (Some 1));
        w3 = fst (handle_answer_selection w2 30 (Some ''A'') (Some 1))
    in review_grade ''Grade 9'' = Inr 9
     \<and> snd (handle_answer_selection w 10 (Some ''B'') (Some 1)) = Inr (FeedbackShown False ''A'')
     \<and> map_option (\<lambda>qs. (history qs, current_index qs)) (session_quiz_state (session w1))
         = Some ([\<lparr> q_id = ''Q1'', selected = Some ''B'', correct = ''A'', is_correct = False \<rparr>], 0)
     \<and> map_option current_index (session_quiz_state (session w2)) = Some 1
     \<and> snd (handle_answer_selection w2 30 (Some ''A'') (Some 1)) = Inr (FeedbackShown True ''A'')
     \<and> map_option (\<lambda>qs. (history qs, current_index qs, score qs)) (session_quiz_state (session w3))
         = Some ([\<lparr> q_id = ''Q1'', selected = Some ''B'', correct = ''A'', is_correct = False \<rparr>,
                  \<lparr> q_id = ''Q2'', selected = Some ''A'', correct = ''A'', is_correct = True \<rparr>], 1, 1))"
proof -
  define w where "w = demo_quiz [''Q1'', ''Q2'']"
  define w1 where "w1 = fst (handle_answer_selection w 10 (Some ''B'') (Some 1))"
  define w2 where "w2 = fst (next_question w1 20 (Some 1))"
  define w3 where "w3 = fst (handle_answer_selection w2 30 (Some ''A'') (Some 1))"
  have g: "review_grade ''Grade 9'' = Inr 9"
    by (simp add: run_defs)
  obtain qs where h: "session_quiz_state (session w) = Some qs"
    and m: "mode qs \<noteq> Some ''SPEEDRUN''" "mode qs \<noteq> Some ''SURVIVAL''"
    and r: "current_index qs < length (questions qs)"
    and q: "questions qs ! current_index qs = (demo_question ''Q1'')\<lparr>source_unit := Some ''Unit 1''\<rparr>"
    and e: "history qs = []" "current_index qs = 0" "qs_grade qs = ''Grade 9''"
    by (simp add: w_def demo_defs run_defs)
  have wrong: "Some ''B'' = Some (correct_answer (questions qs ! current_index qs))
               \<or> review_grade (qs_grade qs) = Inr 9"
    using g e by simp
  note first = answer_appends_then_next_advances [OF h m r wrong, of 10 "Some 1" 20 "Some 1"]
  obtain qs2 where h2: "session_quiz_state (session w2) = Some qs2"
    and m2: "mode qs2 \<noteq> Some ''SPEEDRUN''" "mode qs2 \<noteq> Some ''SURVIVAL''"
    and r2: "current_index qs2 < length (questions qs2)"
    and q2: "questions qs2 ! current_index qs2 = (demo_question ''Q2'')\<lparr>source_unit := Some ''Unit 1''\<rparr>"
    and e2: "history qs2 = [\<lparr> q_id = ''Q1'', selected = Some ''B'', correct = ''A'', is_correct = False \<rparr>]"
            "current_index qs2 = 1" "score qs2 = 0"
    by (simp add: w2_def w1_def w_def demo_defs run_defs)
  have right: "Some ''A'' = Some (correct_answer (questions qs2 ! current_index qs2))
               \<or> review_grade (qs_grade qs2) = Inr 9"
    using q2 by (simp add: demo_question_def)
  note second = answer_appends_then_next_advances [OF h2 m2 r2 right, of 30 "Some 1" 40 "Some 1"]
  have sc: "map_option score (session_quiz_state (session w3)) = Some 1"
    by (simp add: w3_def w2_def w1_def w_def demo_defs run_defs)
  from first second g q e q2 e2 h2 sc show ?thesis
    by (auto simp: w_def [symmetric] w1_def [symmetric] w2_def [symmetric] w3_def [symmetric]
          Let_def demo_question_def)
qed

text \<open>
  Claim C7.  In SPEEDRUN mode an answer that arrives when \<open>now - start_time\<close> exceeds
  \<open>duration + 2\<close> is not scored: the handler shows the summary with the reason
  "Time's Up!" and the stored score, and nothing but the id of the shown message is
  stored; the quiz state and the user row (experience points) stay as they were.
\<close>

theorem late_speedrun_answer_rejected:
  assumes "session_quiz_state (session w) = Some qs"
    and "mode qs = Some ''SPEEDRUN''"
    and "start_time qs = Some t0" and "duration qs = Some duration_seconds"
    and "now - t0 > real_of_int duration_seconds + 2"
  shows "handle_answer_selection w now selected_opt rendered
           = (store_message w rendered, Inr (GameSummaryShown TimesUp (score qs) (score qs * 15)))
       \<and> session_quiz_state (session (store_message w rendered)) = Some qs
       \<and> user (store_message w rendered) = user w"
  using assms
  by (simp add: handle_answer_selection_def handle_game_answer_def show_game_summary_def)

text \<open>A run of 60 seconds started at 100: the answer at 163 is rejected.\<close>

theorem late_speedrun_answer_rejected_witness:
  "(\<exists>qs. session_quiz_state (session demo_speedrun) = Some qs \<and> mode qs = Some ''SPEEDRUN''
         \<and> start_time qs = Some 100 \<and> duration qs = Some 60 \<and> score qs = 0)
   \<and> (163::real) - 100 > real_of_int 60 + 2
   \<and> handle_answer_selection demo_speedrun 163 (Some ''A'') (Some 2)
       = (store_message demo_speedrun (Some 2), Inr (GameSummaryShown TimesUp 0 0))
   \<and> total_xp (user (fst (handle_answer_selection demo_speedrun 163 (Some ''A'') (Some 2)))) = 0"
proof -
  obtain qs where h: "session_quiz_state (session demo_speedrun) = Some qs"
    and m: "mode qs = Some ''SPEEDRUN''" and t: "start_time qs = Some 100"
    and d: "duration qs = Some 60" and s: "score qs = 0"
    by (simp add: demo_defs run_defs)
  have late: "(163::real) - 100 > real_of_int 60 + 2" by simp
  have u: "total_xp (user demo_speedrun) = 0"
    by (simp add: demo_defs run_defs)
  from late_speedrun_answer_rejected [OF h m t d late, of "Some ''A''" "Some 2"] h m t d s u
  show ?thesis by simp
qed

text \<open>
  Claim C2: the code does not do what the claim says for answers.  A one-question unit
  quiz is answered and \<^verbatim>\<open>next_question\<close> shows the summary; the stored index is then 1,
  the length of the question list.  A second tap on an answer button of the old
  message reaches \<^verbatim>\<open>handle_answer_selection\<close>, which reads
  \<^verbatim>\<open>quiz_state["questions"][idx]\<close> without the range check that \<^verbatim>\<open>present_question\<close>
  and \<^verbatim>\<open>skip_question\<close> make, and raises \<^verbatim>\<open>IndexError\<close>; no summary is shown.
\<close>

theorem stale_answer_raises_IndexError:
  "(let w = quiz_run (demo_quiz [''Q1'']) right_then_next
    in map_option (\<lambda>qs. (current_index qs, length (questions qs))) (session_quiz_state (session w))
         = Some (1, 1)
     \<and> handle_answer_selection w 30 (Some ''A'') (Some 1) = (w, Inl IndexError))"
  by (simp add: demo_defs run_defs)

text \<open>
  With a stored index out of range, presenting and skipping show the summary, and
  answering raises in every mode that \<^verbatim>\<open>handle_answer_selection\<close> processes itself.
\<close>

lemma stale_index_present_and_skip:
  assumes "stored_quiz w = Some qs" and "current_index qs \<ge> length (questions qs)"
  shows "present_question w now r = show_quiz_summary w now r"
    and "skip_question w now r = show_quiz_summary w now r"
    and "standard_mode qs \<Longrightarrow> handle_answer_selection w now sel r = (w, Inl IndexError)"
  using assms
  by (simp_all add: present_question_def skip_question_def handle_answer_selection_def
        standard_mode_def py_index_def)

text \<open>
  Claim C1: the code does not do what the claim says.  A new user starts the unit quiz
  with ten questions, answers nine right and the tenth wrong, and asks for the next
  question.  The summary shows accuracy 90 and the phase BALANCED; but
  \<^verbatim>\<open>show_quiz_summary\<close> passes that derived phase to \<^verbatim>\<open>update_phase_progress\<close> as the
  phase of the batch, which therefore stores the accuracy as the BALANCED accuracy and
  unlocks the next phase: the record has \<open>unlocked_exam\<close> set, \<open>unlocked_balanced\<close>
  not set and \<open>current_phase\<close> EXAM_BIASED.
\<close>

theorem summary_unlocks_exam_instead_of_balanced:
  "(let w = quiz_run (demo_quiz [''Q1'', ''Q2'', ''Q3'', ''Q4'', ''Q5'', ''Q6'', ''Q7'', ''Q8'', ''Q9'', ''Q10''])
             (concat (replicate 9 right_then_next) @ [wrong_answer]);
        res = next_question w 50 (Some 1)
    in (\<exists>sm. snd res = Inr (QuizSummaryShown sm) \<and> accuracy_percentage sm = 90
              \<and> correct_count sm = 9 \<and> incorrect_count sm = 1 \<and> curr_phase sm = ''BALANCED'')
     \<and> map_option (\<lambda>p. (balanced_accuracy p, unlocked_balanced p, unlocked_exam p, current_phase p))
          (get_user_progress (progress (fst res)) 7 ''BIO_Grade9_U1'')
        = Some (90, False, True, ''EXAM_BIASED''))"
  by (simp add: demo_defs run_defs replicate_9)

text \<open>
  The phase that \<^verbatim>\<open>show_quiz_summary\<close> passes is BASELINE only for an accuracy below the
  threshold, so this call never changes \<open>unlocked_balanced\<close>.
\<close>

lemma set_phase_accuracy_derived_balanced:
  "unlocked_balanced (set_phase_accuracy p (derived_phase accuracy) accuracy) = unlocked_balanced p"
  by (simp add: set_phase_accuracy_def derived_phase_def PHASE_UNLOCK_THRESHOLD_def Let_def)

text \<open>
  Claim C3, as stated, fails for the unit quiz.  Three questions, the first answered
  right and the other two wrong: the user has gained 10 experience points when the
  summary is shown, while the accuracy is 33 and the summary reports
  \<open>floor(accuracy / 10) * 10 = 30\<close>.
\<close>

theorem standard_xp_is_not_accuracy_based_counterexample:
  "(let w = quiz_run (demo_quiz [''Q1'', ''Q2'', ''Q3''])
             (right_then_next @ [wrong_answer, (Next, 40, Some 1), wrong_answer]);
        res = next_question w 50 (Some 1)
    in total_xp (user (fst res)) = total_xp (user demo_world) + 10
     \<and> (\<exists>sm. snd res = Inr (QuizSummaryShown sm) \<and> correct_count sm = 1
            \<and> accuracy_percentage sm = 33 \<and> xp_reward sm = 30))"
  by (simp add: demo_defs run_defs)

text \<open>
  Claim C3, amended.  From any stored quiz state:
  in the unit quiz, the review sessions and the challenge, every sequence of answer,
  next and skip requests credits 10 experience points for each point the score gains,
  and the score gains one point for each right answer recorded in the history;
  \<^verbatim>\<open>show_quiz_summary\<close> credits nothing, and the \<open>xp_reward\<close> it reports is
  \<open>floor(accuracy / 10) * 10\<close>;
  in a SPEEDRUN run every sequence of answers credits 15 points for each answer that
  is accepted and right, in a SURVIVAL run 20.
\<close>

theorem xp_credit_per_correct_answer:
  assumes "session_quiz_state (session w) = Some qs"
  shows "(standard_mode qs \<longrightarrow>
            (\<exists>qs'. session_quiz_state (session (quiz_run w reqs)) = Some qs'
               \<and> score qs \<le> score qs'
               \<and> score qs' - score qs = correct_entries qs' - correct_entries qs
               \<and> total_xp (user (quiz_run w reqs)) = total_xp (user w) + 10 * (score qs' - score qs)))
       \<and> total_xp (user (fst (show_quiz_summary w now rendered))) = total_xp (user w)
       \<and> (\<forall>sm. snd (show_quiz_summary w now rendered) = Inr (QuizSummaryShown sm) \<longrightarrow>
            xp_reward sm = \<lfloor>real (score qs) / real (length (questions qs)) * 100 / 10\<rfloor> * 10)
       \<and> (mode qs = Some ''SPEEDRUN'' \<longrightarrow>
            total_xp (user (game_run w answers)) = total_xp (user w) + 15 * right_answers w answers)
       \<and> (mode qs = Some ''SURVIVAL'' \<longrightarrow>
            total_xp (user (game_run w answers)) = total_xp (user w) + 20 * right_answers w answers)"
proof -
  have std: "standard_mode qs \<longrightarrow>
            (\<exists>qs'. session_quiz_state (session (quiz_run w reqs)) = Some qs'
               \<and> score qs \<le> score qs'
               \<and> score qs' - score qs = correct_entries qs' - correct_entries qs
               \<and> total_xp (user (quiz_run w reqs)) = total_xp (user w) + 10 * (score qs' - score qs))"
  proof
    assume "standard_mode qs"
    from quiz_run_credit [OF assms this, of reqs]
    obtain qs' where q': "stored_quiz (quiz_run w reqs) = Some qs'"
      and c: "credited_in_step w qs (quiz_run w reqs) qs'"
      by blast
    from c have "score qs \<le> score qs'"
      and "score qs' - score qs = correct_entries qs' - correct_entries qs"
      and "total_xp (user (quiz_run w reqs)) = total_xp (user w) + 10 * (score qs' - score qs)"
      by (auto simp: credited_in_step_def)
    with q' show "\<exists>qs'. session_quiz_state (session (quiz_run w reqs)) = Some qs'
               \<and> score qs \<le> score qs'
               \<and> score qs' - score qs = correct_entries qs' - correct_entries qs
               \<and> total_xp (user (quiz_run w reqs)) = total_xp (user w) + 10 * (score qs' - score qs)"
      by blast
  qed
  have sr: "mode qs = Some ''SPEEDRUN'' \<longrightarrow>
            total_xp (user (game_run w answers)) = total_xp (user w) + 15 * right_answers w answers"
    using game_run_xp [OF assms, of "''SPEEDRUN''" answers] by simp
  have sv: "mode qs = Some ''SURVIVAL'' \<longrightarrow>
            total_xp (user (game_run w answers)) = total_xp (user w) + 20 * right_answers w answers"
    using game_run_xp [OF assms, of "''SURVIVAL''" answers] by simp
  show ?thesis
    using std sr sv show_quiz_summary_reward [OF assms, of now rendered]
    by (simp add: show_quiz_summary_proj(2))
qed

theorem xp_credit_per_correct_answer_witness:
  "(\<exists>qs. session_quiz_state (session (demo_quiz [''Q1'', ''Q2'', ''Q3''])) = Some qs
         \<and> standard_mode qs \<and> score qs = 0)
   \<and> total_xp (user (quiz_run (demo_quiz [''Q1'', ''Q2'', ''Q3''])
                        (right_then_next @ [wrong_answer, (Next, 40, Some 1)])))
       = total_xp (user (demo_quiz [''Q1'', ''Q2'', ''Q3''])) + 10
   \<and> (\<exists>qs. session_quiz_state (session demo_speedrun) = Some qs \<and> mode qs = Some ''SPEEDRUN'')
   \<and> right_answers demo_speedrun [(Some ''B'', 110, Some 1), (Some ''A'', 120, Some 1)] = 1
   \<and> total_xp (user (game_run demo_speedrun [(Some ''B'', 110, Some 1), (Some ''A'', 120, Some 1)]))
       = total_xp (user demo_speedrun) + 15"
proof -
  obtain qs where h: "session_quiz_state (session (demo_quiz [''Q1'', ''Q2'', ''Q3''])) = Some qs"
    by (simp add: demo_defs run_defs)
  obtain gs where g: "session_quiz_state (session demo_speedrun) = Some gs"
    by (simp add: demo_defs run_defs)
  note std = xp_credit_per_correct_answer
    [OF h, of "right_then_next @ [wrong_answer, (Next, 40, Some 1)]" 50 "Some 1" "[]"]
  note game = xp_credit_per_correct_answer
    [OF g, of "[]" 50 "Some 1" "[(Some ''B'', 110, Some 1), (Some ''A'', 120, Some 1)]"]
  have r: "right_answers demo_speedrun [(Some ''B'', 110, Some 1), (Some ''A'', 120, Some 1)] = 1"
    by (simp add: demo_defs run_defs answer_right_def answer_accepted_def)
  have m: "mode gs = Some ''SPEEDRUN''"
    using g by (auto simp: demo_defs run_defs)
  have s: "standard_mode qs \<and> score qs = 0"
    using h by (auto simp: demo_defs run_defs standard_mode_def)
  have x: "total_xp (user (quiz_run (demo_quiz [''Q1'', ''Q2'', ''Q3''])
                        (right_then_next @ [wrong_answer, (Next, 40, Some 1)])))
       = total_xp (user (demo_quiz [''Q1'', ''Q2'', ''Q3''])) + 10"
    by (simp add: demo_defs run_defs)
  from std game r m s x h g show ?thesis by simp
qed

text \<open>What the start functions store.\<close>

lemma start_speedrun_state:
  assumes "loaded \<noteq> []"
  shows "\<exists>qs. stored_quiz (fst (start_speedrun w now d code grade loaded r)) = Some qs
           \<and> mode qs = Some ''SPEEDRUN'' \<and> history qs = []"
  using assms by (simp add: start_speedrun_def Let_def update_session_state_quiz)

lemma start_survival_state:
  assumes "loaded \<noteq> []"
  shows "\<exists>qs. stored_quiz (fst (start_survival w now code grade loaded r)) = Some qs
           \<and> mode qs = Some ''SURVIVAL'' \<and> history qs = []"
  using assms by (simp add: start_survival_def Let_def update_session_state_quiz)

lemma start_challenge_session_state:
  "\<exists>qs. stored_quiz (fst (start_challenge_session w now cid subj g loaded r)) = Some qs
           \<and> mode qs = Some ''CHALLENGE'' \<and> history qs = []"
  by (simp add: start_challenge_session_def Let_def)

text \<open>
  Claim C10, as stated, fails for CHALLENGE.  The router sends every answer to
  \<^verbatim>\<open>handle_answer_selection\<close>, which hands only SPEEDRUN and SURVIVAL states to
  \<^verbatim>\<open>handle_game_answer\<close>; the answer of a challenge goes through the path of the unit
  quiz, which appends to the history.
\<close>

theorem challenge_answer_is_logged_counterexample:
  "map_option (\<lambda>qs. (mode qs, history qs))
     (session_quiz_state (session (fst (handle_answer_selection demo_challenge 110 (Some ''A'') (Some 1)))))
   = Some (Some ''CHALLENGE'',
           [\<lparr> q_id = ''Q1'', selected = Some ''A'', correct = ''A'', is_correct = True \<rparr>])"
  by (simp add: demo_defs run_defs str_int_def str_nat.simps)

text \<open>
  Claim C10, amended.  A SPEEDRUN or SURVIVAL run starts with an empty history, and
  after every sequence of answers the stored history is still empty.  A CHALLENGE run
  starts with an empty history too, and its first answer, when it is processed
  without raising, leaves one entry in it.
\<close>

theorem game_history_stays_empty:
  assumes "loaded \<noteq> []"
  shows "(\<exists>qs. session_quiz_state (session (game_run
                   (fst (start_speedrun w now duration_seconds subject_code grade loaded rendered))
                   answers)) = Some qs
             \<and> mode qs = Some ''SPEEDRUN'' \<and> history qs = [])
       \<and> (\<exists>qs. session_quiz_state (session (game_run
                   (fst (start_survival w now code grade loaded rendered)) answers)) = Some qs
             \<and> mode qs = Some ''SURVIVAL'' \<and> history qs = [])
       \<and> (\<forall>sel t r out.
             snd (handle_answer_selection
                    (fst (start_challenge_session w now challenge_id subject g loaded rendered))
                    t sel r) = Inr out \<longrightarrow>
             (\<exists>qs. session_quiz_state (session (fst (handle_answer_selection
                      (fst (start_challenge_session w now challenge_id subject g loaded rendered))
                      t sel r))) = Some qs
                \<and> mode qs = Some ''CHALLENGE'' \<and> length (history qs) = 1))"
proof -
  from start_speedrun_state [OF assms, of w now duration_seconds subject_code grade rendered]
  obtain q1 where a: "stored_quiz (fst (start_speedrun w now duration_seconds subject_code grade
                                          loaded rendered)) = Some q1"
    and m1: "mode q1 = Some ''SPEEDRUN''" and h1: "history q1 = []"
    by blast
  from m1 have "mode q1 = Some ''SPEEDRUN'' \<or> mode q1 = Some ''SURVIVAL''" by simp
  from game_run_state [OF a this, of answers] m1 h1
  have speed: "\<exists>qs. session_quiz_state (session (game_run
                   (fst (start_speedrun w now duration_seconds subject_code grade loaded rendered))
                   answers)) = Some qs
             \<and> mode qs = Some ''SPEEDRUN'' \<and> history qs = []"
    by auto
  from start_survival_state [OF assms, of w now code grade rendered]
  obtain q2 where b: "stored_quiz (fst (start_survival w now code grade loaded rendered)) = Some q2"
    and m2: "mode q2 = Some ''SURVIVAL''" and h2: "history q2 = []"
    by blast
  from m2 have "mode q2 = Some ''SPEEDRUN'' \<or> mode q2 = Some ''SURVIVAL''" by simp
  from game_run_state [OF b this, of answers] m2 h2
  have surv: "\<exists>qs. session_quiz_state (session (game_run
                   (fst (start_survival w now code grade loaded rendered)) answers)) = Some qs
             \<and> mode qs = Some ''SURVIVAL'' \<and> history qs = []"
    by auto
  from start_challenge_session_state [of w now challenge_id subject g loaded rendered]
  obtain q3 where c: "stored_quiz (fst (start_challenge_session w now challenge_id subject g
                                          loaded rendered)) = Some q3"
    and m3: "mode q3 = Some ''CHALLENGE''" and h3: "history q3 = []"
    by blast
  have chal: "\<forall>sel t r out.
             snd (handle_answer_selection
                    (fst (start_challenge_session w now challenge_id subject g loaded rendered))
                    t sel r) = Inr out \<longrightarrow>
             (\<exists>qs. session_quiz_state (session (fst (handle_answer_selection
                      (fst (start_challenge_session w now challenge_id subject g loaded rendered))
                      t sel r))) = Some qs
                \<and> mode qs = Some ''CHALLENGE'' \<and> length (history qs) = 1)"
  proof (intro allI impI)
    fix sel t r out
    assume s: "snd (handle_answer_selection
                    (fst (start_challenge_session w now challenge_id subject g loaded rendered))
                    t sel r) = Inr out"
    from m3 have n: "mode q3 \<noteq> Some ''SPEEDRUN''" "mode q3 \<noteq> Some ''SURVIVAL''" by simp_all
    from handle_answer_selection_standard(2) [OF c n s] m3 h3
    show "\<exists>qs. session_quiz_state (session (fst (handle_answer_selection
                      (fst (start_challenge_session w now challenge_id subject g loaded rendered))
                      t sel r))) = Some qs
                \<and> mode qs = Some ''CHALLENGE'' \<and> length (history qs) = 1"
      by auto
  qed
  from speed surv chal show ?thesis by blast
qed

theorem game_history_stays_empty_witness:
  "[demo_question ''Q1'', demo_question ''Q2''] \<noteq> []
   \<and> map_option (\<lambda>qs. (mode qs, history qs, current_index qs, score qs))
       (session_quiz_state (session (game_run demo_speedrun
          [(Some ''A'', 110, Some 1), (Some ''B'', 120, Some 1)])))
     = Some (Some ''SPEEDRUN'', [], 1, 1)
   \<and> snd (handle_answer_selection demo_challenge 110 (Some ''A'') (Some 1))
       = Inr (FeedbackShown True ''A'')"
proof -
  have ne: "[demo_question ''Q1'', demo_question ''Q2''] \<noteq> []" by simp
  note t = game_history_stays_empty [OF ne, of demo_world 100 60 "Some ''BIO''" None "Some 1"
              "[(Some ''A'', 110, Some 1), (Some ''B'', 120, Some 1)]"]
  have e: "map_option (\<lambda>qs. (mode qs, history qs, current_index qs, score qs))
       (session_quiz_state (session (game_run demo_speedrun
          [(Some ''A'', 110, Some 1), (Some ''B'', 120, Some 1)])))
     = Some (Some ''SPEEDRUN'', [], 1, 1)"
    by (simp add: demo_defs run_defs)
  have c: "snd (handle_answer_selection demo_challenge 110 (Some ''A'') (Some 1))
       = Inr (FeedbackShown True ''A'')"
    by (simp add: demo_defs run_defs str_int_def str_nat.simps)
  from t ne e c show ?thesis by simp
qed


section \<open>Lock Evaluator: properties\<close>

lemma lock_answer_blocks:
  "fst (lock_answer admins telegram_id msg) \<longleftrightarrow> telegram_id \<notin> set admins"
  by (simp add: lock_answer_def)

lemma active_lock_row: "active_lock db ty target \<Longrightarrow> list_ex is_locked (system_locks db)"
  by (auto simp: active_lock_def list_ex_iff)

lemma found_trivial [simp]:
  "found_and_blocked db admins telegram_id (Inl e)"
  "found_and_blocked db admins telegram_id (Inr (False, reason))"
  by (simp_all add: found_and_blocked_def)

lemma found_lock_answer:
  assumes "list_ex is_locked (system_locks db)"
  shows "found_and_blocked db admins telegram_id (Inr (lock_answer admins telegram_id msg))"
  using assms by (simp add: found_and_blocked_def lock_answer_def)

lemma unit_stage_found:
  "found_and_blocked db admins telegram_id (unit_stage db admins telegram_id action screen param)"
proof (cases "unit_ids_of action screen param")
  case (Inl e)
  then show ?thesis by (simp add: unit_stage_def)
next
  case (Inr ids)
  show ?thesis
  proof (cases "ids \<noteq> [] \<and> \<not> failing db UnitQuery
      \<and> list_ex (\<lambda>l. lock_type l = ''UNIT'' \<and> lock_target l \<in> set ids \<and> is_locked l) (system_locks db)")
    case True
    then have "list_ex is_locked (system_locks db)"
      by (auto simp: list_ex_iff)
    from found_lock_answer [OF this] True Inr show ?thesis
      by (simp add: unit_stage_def)
  next
    case False
    with Inr show ?thesis
      by (auto simp: unit_stage_def)
  qed
qed

lemma subject_stage_found:
  "found_and_blocked db admins telegram_id
     (subject_stage db admins telegram_id action screen param target_grade)"
proof (cases "subject_of_param param")
  case None
  then show ?thesis by (simp add: subject_stage_def unit_stage_found)
next
  case (Some cn)
  obtain code subj_name where cn: "cn = (code, subj_name)" by (cases cn)
  show ?thesis
  proof (cases target_grade)
    case None
    with Some cn show ?thesis by (simp add: subject_stage_def unit_stage_found)
  next
    case (Some g)
    show ?thesis
    proof (cases "g \<noteq> 0 \<and> \<not> failing db SubjectQuery
                  \<and> active_lock db ''SUBJECT'' (subj_name @ '':'' @ str_int g)")
      case True
      then have "list_ex is_locked (system_locks db)" by (auto dest: active_lock_row)
      from found_lock_answer [OF this] True Some \<open>subject_of_param param = Some cn\<close> cn
      show ?thesis by (simp add: subject_stage_def)
    next
      case False
      with Some \<open>subject_of_param param = Some cn\<close> cn show ?thesis
        by (auto simp: subject_stage_def unit_stage_found)
    qed
  qed
qed

lemma grade_stage_found:
  "found_and_blocked db admins telegram_id (grade_stage db admins telegram_id action screen param)"
proof (cases "grade_of_param param")
  case (Inl e)
  then show ?thesis by (simp add: grade_stage_def)
next
  case (Inr from_param)
  show ?thesis
  proof (cases from_param)
    case (Some g)
    with Inr show ?thesis by (simp add: grade_stage_def subject_stage_found)
  next
    case None
    with Inr show ?thesis
      by (cases "grade_fallback db telegram_id action screen param")
         (simp_all add: grade_stage_def subject_stage_found)
  qed
qed

lemma check_locks_found:
  "found_and_blocked db admins telegram_id (check_locks db admins telegram_id action screen param)"
proof (cases "target_feature_of action screen param")
  case None
  then show ?thesis by (simp add: check_locks_def grade_stage_found)
next
  case (Some tf)
  show ?thesis
  proof (cases "\<not> failing db FeatureQuery \<and> active_lock db ''FEATURE'' tf")
    case True
    then have "list_ex is_locked (system_locks db)" by (auto dest: active_lock_row)
    from found_lock_answer [OF this] True Some show ?thesis
      by (simp add: check_locks_def)
  next
    case False
    show ?thesis
    proof (cases "failing db FeatureQuery")
      case True
      with Some show ?thesis by (simp add: check_locks_def)
    next
      case ok: False
      with False Some show ?thesis by (simp add: check_locks_def grade_stage_found)
    qed
  qed
qed

text \<open>
  Claim C5.  For every database state, administrator list and request
  (user, action, screen, parameter): when the evaluation inside the \<^verbatim>\<open>try\<close> block raises
  (a failing query, \<^verbatim>\<open>in\<close> on a missing parameter, \<^verbatim>\<open>int()\<close> on a digit it rejects),
  \<^verbatim>\<open>is_content_locked\<close> returns not blocked with the empty reason, so nothing
  reaches the caller.  It blocks only when the evaluation ended normally with a
  blocking answer: the user is no administrator, a lock row is switched on and the
  reason is not empty.
\<close>

theorem lock_check_fails_open:
  "(check_locks db admins telegram_id action screen param = Inl e \<longrightarrow>
      is_content_locked db admins telegram_id action screen param = (False, []))
   \<and> (fst (is_content_locked db admins telegram_id action screen param) \<longrightarrow>
        telegram_id \<notin> set admins
        \<and> list_ex is_locked (system_locks db)
        \<and> (\<exists>reason. reason \<noteq> []
              \<and> check_locks db admins telegram_id action screen param = Inr (True, reason)))"
proof -
  have a: "check_locks db admins telegram_id action screen param = Inl e \<longrightarrow>
      is_content_locked db admins telegram_id action screen param = (False, [])"
    by (simp add: is_content_locked_def)
  have b: "fst (is_content_locked db admins telegram_id action screen param) \<longrightarrow>
        telegram_id \<notin> set admins
        \<and> list_ex is_locked (system_locks db)
        \<and> (\<exists>reason. reason \<noteq> []
              \<and> check_locks db admins telegram_id action screen param = Inr (True, reason))"
    using check_locks_found [of db admins telegram_id action screen param]
    by (auto simp: is_content_locked_def found_and_blocked_def split: sum.splits if_splits)
  from a b show ?thesis by blast
qed

text \<open>
  Three requests whose evaluation raises, with a unit lock switched on: an action
  without parameter, a parameter that is the superscript two, and a failing unit
  query.  The same unit request without failure is blocked for user 5 and passes with
  the bypass notice for the administrator 1.
\<close>

theorem lock_check_fails_open_witness:
  "check_locks demo_locks [1] 5 ''ACT'' (Some ''QUIZ'') None = Inl TypeError
   \<and> is_content_locked demo_locks [1] 5 ''ACT'' (Some ''QUIZ'') None = (False, [])
   \<and> check_locks demo_locks [1] 5 ''NAV'' (Some ''SCR_STATS'') (Some [char_of (178::nat)]) = Inl ValueError
   \<and> is_content_locked demo_locks [1] 5 ''NAV'' (Some ''SCR_STATS'') (Some [char_of (178::nat)]) = (False, [])
   \<and> check_locks (demo_locks\<lparr>failing := (\<lambda>q. q = UnitQuery)\<rparr>) [1] 5 ''NAV'' (Some ''SCR_QUIZ_PRES'')
        (Some ''BIO:G10:U1'') = Inl OperationalError
   \<and> is_content_locked (demo_locks\<lparr>failing := (\<lambda>q. q = UnitQuery)\<rparr>) [1] 5 ''NAV''
        (Some ''SCR_QUIZ_PRES'') (Some ''BIO:G10:U1'') = (False, [])
   \<and> is_content_locked demo_locks [1] 5 ''NAV'' (Some ''SCR_QUIZ_PRES'') (Some ''BIO:G10:U1'')
       = (True, ''(lock) This unit is currently locked.'')
   \<and> is_content_locked demo_locks [1] 1 ''NAV'' (Some ''SCR_QUIZ_PRES'') (Some ''BIO:G10:U1'')
       = (False, ''(shield) LOCKED (Admin Bypass): This unit is currently locked.'')"
proof -
  have t: "check_locks demo_locks [1] 5 ''ACT'' (Some ''QUIZ'') None = Inl TypeError"
    by code_simp
  have v: "check_locks demo_locks [1] 5 ''NAV'' (Some ''SCR_STATS'') (Some [char_of (178::nat)]) = Inl ValueError"
    by code_simp
  have d: "check_locks (demo_locks\<lparr>failing := (\<lambda>q. q = UnitQuery)\<rparr>) [1] 5 ''NAV'' (Some ''SCR_QUIZ_PRES'')
        (Some ''BIO:G10:U1'') = Inl OperationalError"
    by code_simp
  have l: "is_content_locked demo_locks [1] 5 ''NAV'' (Some ''SCR_QUIZ_PRES'') (Some ''BIO:G10:U1'')
       = (True, ''(lock) This unit is currently locked.'')"
    by code_simp
  have b: "is_content_locked demo_locks [1] 1 ''NAV'' (Some ''SCR_QUIZ_PRES'') (Some ''BIO:G10:U1'')
       = (False, ''(shield) LOCKED (Admin Bypass): This unit is currently locked.'')"
    by code_simp
  note open1 = lock_check_fails_open [of demo_locks "[1]" 5 "''ACT''" "Some ''QUIZ''" None TypeError]
  note open2 = lock_check_fails_open [of demo_locks "[1]" 5 "''NAV''" "Some ''SCR_STATS''"
                 "Some [char_of (178::nat)]" ValueError]
  note open3 = lock_check_fails_open [of "demo_locks\<lparr>failing := (\<lambda>q. q = UnitQuery)\<rparr>" "[1]" 5
                 "''NAV''" "Some ''SCR_QUIZ_PRES''" "Some ''BIO:G10:U1''" OperationalError]
  from t v d l b open1 open2 open3 show ?thesis by simp
qed

end
